theory Spec2Isabelle
  imports Main "HOL-Library.Word"
begin

unbundle bit_operations_syntax

section \<open>Machine types and constants of gputemps.c\<close>

type_synonym u8 = "8 word"
type_synonym u16 = "16 word"
type_synonym u32 = "32 word"
type_synonym u64 = "64 word"

definition REFRESH_DURATION :: nat where
  "REFRESH_DURATION = 1"

definition BUFFER_SIZE :: nat where
  "BUFFER_SIZE = 1024"

definition HOTSPOT_REGISTER_OFFSET :: u32 where
  "HOTSPOT_REGISTER_OFFSET = 0x0002046C"

definition VRAM_REGISTER_OFFSET :: u32 where
  "VRAM_REGISTER_OFFSET = 0x0000E2A8"

definition MEM_PATH :: string where
  "MEM_PATH = ''/dev/mem''"

text \<open>The escape sequences are byte strings; ESC is byte 0x1B and the separator is
  the three bytes of U+2502 in UTF-8.\<close>

definition SEPARATOR :: string where
  "SEPARATOR = [CHR 0xE2, CHR 0x94, CHR 0x82]"

definition CURSOR_HIDE :: string where
  "CURSOR_HIDE = CHR 0x1B # ''[?25l''"

definition CURSOR_SHOW :: string where
  "CURSOR_SHOW = CHR 0x1B # ''[?25h''"

definition COLOR_RESET :: string where
  "COLOR_RESET = CHR 0x1B # ''[0m''"

definition COLOR_GREEN :: string where
  "COLOR_GREEN = CHR 0x1B # ''[32m''"

definition COLOR_YELLOW :: string where
  "COLOR_YELLOW = CHR 0x1B # ''[33m''"

definition COLOR_RED :: string where
  "COLOR_RED = CHR 0x1B # ''[31m''"

definition GPU_TEMP_WARN :: u32 where
  "GPU_TEMP_WARN = 70"

definition GPU_TEMP_DANGER :: u32 where
  "GPU_TEMP_DANGER = 85"

definition JUNCTION_TEMP_WARN :: u32 where
  "JUNCTION_TEMP_WARN = 80"

definition JUNCTION_TEMP_DANGER :: u32 where
  "JUNCTION_TEMP_DANGER = 95"

definition VRAM_TEMP_WARN :: u32 where
  "VRAM_TEMP_WARN = 80"

definition VRAM_TEMP_DANGER :: u32 where
  "VRAM_TEMP_DANGER = 95"

datatype OutputFormat = FORMAT_TABLE | FORMAT_JSON

datatype OutputMode = MODE_CONTINUOUS | MODE_ONCE

section \<open>Register decoding (read_register_temp, lines 228-232)\<close>

text \<open>The two branches that store into \<open>*temp\<close>. For any other offset nothing is
  stored, so the caller's value \<open>temp\<close> stays.\<close>

definition decode_register :: "u32 \<Rightarrow> u32 \<Rightarrow> u32 \<Rightarrow> u32" where
  "decode_register offset reg_value temp =
     (if offset = HOTSPOT_REGISTER_OFFSET then drop_bit 8 reg_value AND 0xff
      else if offset = VRAM_REGISTER_OFFSET then (reg_value AND 0x00000fff) div 0x20
      else temp)"

section \<open>Colour bands (get_temp_color)\<close>

definition get_temp_color :: "u32 \<Rightarrow> u32 \<Rightarrow> u32 \<Rightarrow> string" where
  "get_temp_color temp warn danger =
     (if temp \<ge> danger then COLOR_RED
      else if temp \<ge> warn then COLOR_YELLOW
      else COLOR_GREEN)"

section \<open>The output buffer (Context, buffer_append)\<close>

text \<open>\<open>result\<close> is the last nvmlReturn_t (0 is NVML_SUCCESS); \<open>pacc\<close> records whether
  the PCI access pointer is non-NULL; \<open>buffer_pos\<close> is a size_t.\<close>

record Context =
  result :: nat
  device_count :: nat
  initialized :: bool
  pacc :: bool
  output_buffer :: string
  buffer_pos :: nat
  output_mode :: OutputMode
  output_format :: OutputFormat

text \<open>C's conversions, written out: size_t is 64 bits and wraps, int is 32 bits and
  a value out of its range is reduced modulo \<open>2 ^ 32\<close>.\<close>

definition to_size_t :: "int \<Rightarrow> nat" where
  "to_size_t i = nat (i mod 2 ^ 64)"

definition to_int :: "int \<Rightarrow> int" where
  "to_int i = (let y = i mod 2 ^ 32 in if y \<ge> 2 ^ 31 then y - 2 ^ 32 else y)"

text \<open>What vsnprintf stores at its destination for the formatted text \<open>s\<close> and the
  size \<open>n\<close>: nothing when \<open>n = 0\<close>, otherwise at most \<open>n - 1\<close> characters and a
  terminating NUL. It returns the length of the whole formatted text (a negative value
  when that length does not fit an int).\<close>

definition vsnprintf_bytes :: "nat \<Rightarrow> string \<Rightarrow> string" where
  "vsnprintf_bytes n s = (if n = 0 then [] else take (n - 1) s @ [CHR 0x00])"

definition vsnprintf_ret :: "string \<Rightarrow> int" where
  "vsnprintf_ret s = (if length s < 2 ^ 31 then int (length s) else - 1)"

text \<open>Storing bytes at index \<open>pos\<close> of an array. A store that runs past the end of
  the array shows as a result longer than the array.\<close>

definition poke :: "string \<Rightarrow> nat \<Rightarrow> string \<Rightarrow> string" where
  "poke buf pos bytes = take pos buf @ bytes @ drop (pos + length bytes) buf"

text \<open>\<open>s\<close> is the text that the format and its arguments expand to.\<close>

definition buffer_append :: "Context \<Rightarrow> string \<Rightarrow> Context" where
  "buffer_append ctx s =
     (let remaining = to_int (int (to_size_t (int BUFFER_SIZE - int (buffer_pos ctx))));
          bytes = vsnprintf_bytes (to_size_t remaining) s;
          written = vsnprintf_ret s;
          ctx1 = ctx\<lparr>output_buffer := poke (output_buffer ctx) (buffer_pos ctx) bytes\<rparr>
      in if written > 0 \<and> written < remaining
         then ctx1\<lparr>buffer_pos := to_size_t (int (buffer_pos ctx) + written)\<rparr>
         else ctx1)"

section \<open>The world outside the program\<close>

text \<open>struct pci_dev of libpci, with the fields the program reads: \<open>domain\<close> is an int
  (its 32 bits are kept), \<open>bus\<close> and \<open>dev\<close> are bytes, the two ids are 16-bit, and
  \<open>base_addr0\<close> is \<open>base_addr[0]\<close>, a 64-bit pciaddr_t.\<close>

record pci_dev =
  domain :: u32
  bus :: u8
  dev :: u8
  vendor_id :: u16
  device_id :: u16
  base_addr0 :: u64

text \<open>nvmlPciInfo_t: four unsigned ints (fields \<open>domain\<close>, \<open>bus\<close>, \<open>device\<close> and
  \<open>pciDeviceId\<close> of the C struct).\<close>

record nvmlPciInfo_t =
  pci_domain :: u32
  pci_bus :: u32
  pci_device :: u32
  pciDeviceId :: u32

record GpuDevice =
  device :: nat
  pci_info :: nvmlPciInfo_t
  gpu_temp :: u32
  junction_temp :: u32
  vram_temp :: u32

text \<open>Everything the program asks of the operating system and of the two libraries
  during one cycle. An nvmlReturn_t is a number, 0 being NVML_SUCCESS. \<open>devices\<close> is
  the list \<open>ctx->pacc->devices\<close>, each record as pci_fill_info leaves it.
  \<open>open_mem\<close> and \<open>mmap_mem\<close> are \<open>None\<close> on success and the strerror text on
  failure; \<open>mem_word off k\<close> is the 32-bit word found \<open>k\<close> bytes into the window
  mapped at file offset \<open>off\<close>. \<open>unreturned off\<close> is the value a caller finds when
  read_register_temp, called with offset \<open>off\<close>, reaches its closing brace without a
  return statement: C leaves it undefined, so the world supplies it.
  \<open>running\<close> is the flag the signal handler clears, as a loop condition reads it.\<close>

record world =
  euid :: nat
  pci_alloc_ok :: bool
  devices :: "pci_dev list"
  nvmlInit :: nat
  nvmlDeviceGetCount :: "nat \<times> nat"
  nvmlDeviceGetHandleByIndex :: "nat \<Rightarrow> nat \<times> nat"
  nvmlDeviceGetTemperature :: "nat \<Rightarrow> nat \<times> u32"
  nvmlDeviceGetPciInfo :: "nat \<Rightarrow> nat \<times> nvmlPciInfo_t"
  nvmlErrorString :: "nat \<Rightarrow> string"
  open_mem :: "string option"
  PG_SZ :: u64
  mmap_mem :: "u32 \<Rightarrow> string option"
  mem_word :: "u32 \<Rightarrow> u32 \<Rightarrow> u32"
  unreturned :: "u32 \<Rightarrow> int"
  time_now :: int
  tcgetattr_ok :: bool
  tcsetattr_ok :: bool
  stdin_ready :: bool
  stdin_read :: bool
  running :: bool

datatype handler = Reset_terminal | Restore_cursor

text \<open>What the program does to the outside, in order.\<close>

datatype event =
    Stdout string
  | Stderr string
  | Fflush
  | Open_mem
  | Mmap u64 u32
  | Peek u32
  | Munmap u64
  | Close_mem
  | Nvml_init
  | Nvml_count
  | Nvml_handle nat
  | Nvml_temperature nat
  | Nvml_pci_info nat
  | Nvml_shutdown
  | Pci_alloc
  | Pci_init
  | Pci_scan_bus
  | Pci_cleanup
  | Geteuid
  | Tcgetattr
  | Tcsetattr_raw
  | Tcsetattr_orig
  | Atexit handler
  | Signal string
  | Select nat nat
  | Read_stdin
  | Sleep nat

text \<open>\<open>refresh_counter\<close> is the static local of monitor_temperatures_table;
  \<open>atexit_handlers\<close> holds the registered handlers, the latest first.\<close>

record state =
  trace :: "event list"
  refresh_counter :: int
  atexit_handlers :: "handler list"

definition emit :: "event list \<Rightarrow> state \<Rightarrow> state" where
  "emit es s = s\<lparr>trace := trace s @ es\<rparr>"

section \<open>printf conversions\<close>

function dec_nat :: "nat \<Rightarrow> string" where
  "dec_nat n = (if n < 10 then [''0123456789'' ! n]
                else dec_nat (n div 10) @ [''0123456789'' ! (n mod 10)])"
  by pat_completeness auto
termination
  by (relation "measure (\<lambda>n. n)") auto

declare dec_nat.simps [simp del]

text \<open>\<open>%u\<close>, \<open>%3u\<close> (right-justified in at least three columns), and \<open>%d\<close> or
  \<open>%ld\<close>.\<close>

definition fmt_u :: "nat \<Rightarrow> string" where
  "fmt_u n = dec_nat n"

definition fmt_3u :: "nat \<Rightarrow> string" where
  "fmt_3u n = replicate (3 - length (dec_nat n)) CHR '' '' @ dec_nat n"

definition fmt_d :: "int \<Rightarrow> string" where
  "fmt_d i = (if i < 0 then CHR ''-'' # dec_nat (nat (- i)) else dec_nat (nat i))"

definition NL :: string where
  "NL = [CHR 0x0A]"

definition DQ :: string where
  "DQ = [CHR 0x22]"

definition DEGREE_C :: string where
  "DEGREE_C = [CHR 0xC2, CHR 0xB0, CHR ''C'']"

text \<open>What \<open>printf("%s", buf)\<close> prints: the bytes before the first NUL.\<close>

definition c_string :: "string \<Rightarrow> string" where
  "c_string buf = takeWhile (\<lambda>c. c \<noteq> CHR 0x00) buf"

section \<open>Start-up and tear-down helpers\<close>

definition check_root_privileges :: "world \<Rightarrow> state \<Rightarrow> int \<times> state" where
  "check_root_privileges w s =
     (if euid w \<noteq> 0
      then (- 1, emit [Geteuid, Stderr (''This program requires root privileges'' @ NL)] s)
      else (0, emit [Geteuid] s))"

definition cleanup_context :: "Context \<Rightarrow> state \<Rightarrow> Context \<times> state" where
  "cleanup_context ctx s =
     (let (ctx1, s1) = (if initialized ctx
                        then (ctx\<lparr>initialized := False\<rparr>, emit [Nvml_shutdown] s)
                        else (ctx, s))
      in if pacc ctx1
         then (ctx1\<lparr>pacc := False\<rparr>, emit [Pci_cleanup] s1)
         else (ctx1, s1))"

definition restore_cursor :: "state \<Rightarrow> state" where
  "restore_cursor s = emit [Stdout CURSOR_SHOW, Fflush] s"

definition reset_terminal :: "state \<Rightarrow> state" where
  "reset_terminal s = emit [Tcsetattr_orig] s"

definition atexit :: "handler \<Rightarrow> state \<Rightarrow> state" where
  "atexit h s = (emit [Atexit h] s)\<lparr>atexit_handlers := h # atexit_handlers s\<rparr>"

definition setup_terminal :: "world \<Rightarrow> state \<Rightarrow> int \<times> state" where
  "setup_terminal w s =
     (if \<not> tcgetattr_ok w then (- 1, emit [Tcgetattr] s)
      else let s1 = atexit Reset_terminal (emit [Tcgetattr] s)
           in if \<not> tcsetattr_ok w then (- 1, emit [Tcsetattr_raw] s1)
              else (0, emit [Tcsetattr_raw] s1))"

section \<open>Table rows (print_gpu_info)\<close>

definition print_gpu_info :: "Context \<Rightarrow> nat \<Rightarrow> GpuDevice \<Rightarrow> Context" where
  "print_gpu_info ctx index gpu =
     buffer_append ctx
       (fmt_u index @ '' '' @ SEPARATOR @ '' ''
        @ get_temp_color (gpu_temp gpu) GPU_TEMP_WARN GPU_TEMP_DANGER
        @ fmt_3u (unat (gpu_temp gpu)) @ DEGREE_C @ COLOR_RESET @ ''  '' @ SEPARATOR @ '' ''
        @ get_temp_color (junction_temp gpu) JUNCTION_TEMP_WARN JUNCTION_TEMP_DANGER
        @ fmt_3u (unat (junction_temp gpu)) @ DEGREE_C @ COLOR_RESET @ ''  '' @ SEPARATOR @ '' ''
        @ get_temp_color (vram_temp gpu) VRAM_TEMP_WARN VRAM_TEMP_DANGER
        @ fmt_3u (unat (vram_temp gpu)) @ DEGREE_C @ COLOR_RESET @ ''  '' @ SEPARATOR @ NL)"

section \<open>Initialisation (init_pci, init_nvml, get_device_count)\<close>

definition init_pci :: "world \<Rightarrow> Context \<Rightarrow> state \<Rightarrow> int \<times> Context \<times> state" where
  "init_pci w ctx s =
     (if \<not> pci_alloc_ok w
      then (- 1, ctx\<lparr>pacc := False\<rparr>,
            emit [Pci_alloc, Stderr (''Failed to allocate PCI structure'' @ NL)] s)
      else (0, ctx\<lparr>pacc := True\<rparr>, emit [Pci_alloc, Pci_init, Pci_scan_bus] s))"

definition init_nvml :: "world \<Rightarrow> Context \<Rightarrow> state \<Rightarrow> int \<times> Context \<times> state" where
  "init_nvml w ctx s =
     (let ctx1 = ctx\<lparr>result := nvmlInit w\<rparr>
      in if result ctx1 \<noteq> 0
         then (- 1, ctx1,
               emit [Nvml_init, Stderr (''Failed to initialize NVML: ''
                       @ nvmlErrorString w (result ctx1) @ NL)] s)
         else (0, ctx1\<lparr>initialized := True\<rparr>, emit [Nvml_init] s))"

text \<open>The library writes the count only when it succeeds.\<close>

definition get_device_count :: "world \<Rightarrow> Context \<Rightarrow> state \<Rightarrow> int \<times> Context \<times> state" where
  "get_device_count w ctx s =
     (let ctx1 = ctx\<lparr>result := fst (nvmlDeviceGetCount w)\<rparr>
      in if result ctx1 \<noteq> 0
         then (- 1, ctx1,
               emit [Nvml_count, Stderr (''Failed to get device count: ''
                       @ nvmlErrorString w (result ctx1) @ NL)] s)
         else let ctx2 = ctx1\<lparr>device_count := snd (nvmlDeviceGetCount w)\<rparr>
              in if device_count ctx2 = 0
                 then (- 1, ctx2, emit [Nvml_count, Stderr (''No NVIDIA GPUs found'' @ NL)] s)
                 else (0, ctx2, emit [Nvml_count] s))"

section \<open>Management-library queries\<close>

definition get_device_handle ::
  "world \<Rightarrow> Context \<Rightarrow> nat \<Rightarrow> nat \<Rightarrow> state \<Rightarrow> int \<times> Context \<times> nat \<times> state" where
  "get_device_handle w ctx index h s =
     (let ctx1 = ctx\<lparr>result := fst (nvmlDeviceGetHandleByIndex w index)\<rparr>
      in if result ctx1 \<noteq> 0
         then (- 1, ctx1, h,
               emit [Nvml_handle index,
                     Stderr (''Failed to get handle for GPU '' @ fmt_u index @ '': ''
                       @ nvmlErrorString w (result ctx1) @ NL)] s)
         else (0, ctx1, snd (nvmlDeviceGetHandleByIndex w index), emit [Nvml_handle index] s))"

definition get_device_pci_info ::
  "world \<Rightarrow> Context \<Rightarrow> nat \<Rightarrow> nvmlPciInfo_t \<Rightarrow> state
     \<Rightarrow> int \<times> Context \<times> nvmlPciInfo_t \<times> state" where
  "get_device_pci_info w ctx h info s =
     (let ctx1 = ctx\<lparr>result := fst (nvmlDeviceGetPciInfo w h)\<rparr>
      in if result ctx1 \<noteq> 0
         then (- 1, ctx1, info,
               emit [Nvml_pci_info h,
                     Stderr (''Failed to get PCI info: ''
                       @ nvmlErrorString w (result ctx1) @ NL)] s)
         else (0, ctx1, snd (nvmlDeviceGetPciInfo w h), emit [Nvml_pci_info h] s))"

definition get_gpu_temp :: "world \<Rightarrow> nat \<Rightarrow> u32 \<Rightarrow> state \<Rightarrow> int \<times> u32 \<times> state" where
  "get_gpu_temp w h temp s =
     (let r = fst (nvmlDeviceGetTemperature w h)
      in if r \<noteq> 0
         then (- 1, temp,
               emit [Nvml_temperature h,
                     Stderr (''Failed to get GPU temperature: '' @ nvmlErrorString w r @ NL)] s)
         else (0, snd (nvmlDeviceGetTemperature w h), emit [Nvml_temperature h] s))"

section \<open>The register reader (read_register_temp)\<close>

text \<open>A C function of type int either executes a return statement or reaches its
  closing brace, and then the call has no value.\<close>

datatype retval = Returns int | No_value

text \<open>Lines 217 and 218. The sum is formed in 64 bits and stored in a uint32_t;
  the mask is formed in the 64 bits of a long and the result stored in a uint32_t.\<close>

definition reg_addr :: "pci_dev \<Rightarrow> u32 \<Rightarrow> u32" where
  "reg_addr d offset = ucast ((base_addr0 d AND 0xFFFFFFFF) + (ucast offset :: u64))"

definition base_offset :: "world \<Rightarrow> u32 \<Rightarrow> u32" where
  "base_offset w a = ucast ((ucast a :: u64) AND NOT (PG_SZ w - 1))"

definition read_register_temp ::
  "world \<Rightarrow> pci_dev \<Rightarrow> u32 \<Rightarrow> u32 \<Rightarrow> state \<Rightarrow> retval \<times> u32 \<times> state" where
  "read_register_temp w d offset temp s =
     (case open_mem w of
        Some e \<Rightarrow>
          (Returns (- 1), temp,
           emit [Open_mem, Stderr (''Failed to open '' @ MEM_PATH @ '': '' @ e @ NL)] s)
      | None \<Rightarrow>
          (let a = reg_addr d offset;
               b = base_offset w a
           in case mmap_mem w b of
                Some e \<Rightarrow>
                  (Returns (- 1), temp,
                   emit [Open_mem, Mmap (PG_SZ w) b,
                         Stderr (''Failed to map memory: '' @ e @ NL), Close_mem] s)
              | None \<Rightarrow>
                  (let reg_value = mem_word w b (a - b)
                   in (No_value, decode_register offset reg_value temp,
                       emit [Open_mem, Mmap (PG_SZ w) b, Peek (a - b),
                             Munmap (PG_SZ w), Close_mem] s))))"

section \<open>The sampler (get_gpu_temps)\<close>

text \<open>The value a caller gets from a call of read_register_temp.\<close>

definition call_value :: "world \<Rightarrow> u32 \<Rightarrow> retval \<Rightarrow> int" where
  "call_value w offset r = (case r of Returns v \<Rightarrow> v | No_value \<Rightarrow> unreturned w offset)"

text \<open>The condition of line 247 that makes the loop skip a record. The shift and the
  or are done on ints and the result is compared as an unsigned int.\<close>

definition skipped :: "nvmlPciInfo_t \<Rightarrow> pci_dev \<Rightarrow> bool" where
  "skipped info d =
     (push_bit 16 (ucast (device_id d) :: u32) OR ucast (vendor_id d) \<noteq> pciDeviceId info
      \<or> domain d \<noteq> pci_domain info
      \<or> ucast (bus d) \<noteq> pci_bus info
      \<or> ucast (dev d) \<noteq> pci_device info)"

text \<open>The loop of lines 244 to 265 over the rest \<open>ds\<close> of the device list.\<close>

fun scan_devices ::
  "world \<Rightarrow> pci_dev list \<Rightarrow> GpuDevice \<Rightarrow> state \<Rightarrow> int \<times> GpuDevice \<times> state" where
  "scan_devices w [] gpu s = (- 1, gpu, s)"
| "scan_devices w (d # ds) gpu s =
     (if skipped (pci_info gpu) d then scan_devices w ds gpu s
      else
        (case read_register_temp w d HOTSPOT_REGISTER_OFFSET (junction_temp gpu) s of
           (r1, t1, s1) \<Rightarrow>
             if call_value w HOTSPOT_REGISTER_OFFSET r1 \<noteq> 0
             then (- 1, gpu\<lparr>junction_temp := t1\<rparr>, s1)
             else
               (case read_register_temp w d VRAM_REGISTER_OFFSET (vram_temp gpu) s1 of
                  (r2, t2, s2) \<Rightarrow>
                    if call_value w VRAM_REGISTER_OFFSET r2 \<noteq> 0
                    then (- 1, gpu\<lparr>junction_temp := t1, vram_temp := t2\<rparr>, s2)
                    else (0, gpu\<lparr>junction_temp := t1, vram_temp := t2\<rparr>, s2))))"

definition get_gpu_temps ::
  "world \<Rightarrow> Context \<Rightarrow> nat \<Rightarrow> GpuDevice \<Rightarrow> state \<Rightarrow> int \<times> Context \<times> GpuDevice \<times> state" where
  "get_gpu_temps w ctx index gpu s =
     (case get_device_handle w ctx index (device gpu) s of
        (r1, ctx1, h, s1) \<Rightarrow>
          if r1 < 0 then (- 1, ctx1, gpu\<lparr>device := h\<rparr>, s1)
          else
            (case get_gpu_temp w h (gpu_temp gpu) s1 of
               (r2, t, s2) \<Rightarrow>
                 if r2 < 0 then (- 1, ctx1, gpu\<lparr>device := h, gpu_temp := t\<rparr>, s2)
                 else
                   (case get_device_pci_info w ctx1 h (pci_info gpu) s2 of
                      (r3, ctx3, info, s3) \<Rightarrow>
                        if r3 < 0
                        then (- 1, ctx3, gpu\<lparr>device := h, gpu_temp := t, pci_info := info\<rparr>, s3)
                        else
                          (case scan_devices w (devices w)
                                  (gpu\<lparr>device := h, gpu_temp := t, pci_info := info\<rparr>) s3 of
                             (r4, gpu4, s4) \<Rightarrow> (r4, ctx3, gpu4, s4)))))"

section \<open>One cycle (monitor_temperatures_table, monitor_temperatures_json)\<close>

text \<open>\<open>GpuDevice gpu = {0}\<close>.\<close>

definition zero_gpu :: GpuDevice where
  "zero_gpu = \<lparr>device = 0,
               pci_info = \<lparr>pci_domain = 0, pci_bus = 0, pci_device = 0, pciDeviceId = 0\<rparr>,
               gpu_temp = 0, junction_temp = 0, vram_temp = 0\<rparr>"

text \<open>The for loops, from index \<open>i\<close>. Nothing assigns \<open>ctx->device_count\<close> after
  start-up, so the bound \<open>n\<close> is the count read when the loop is entered.\<close>

function table_rows ::
  "world \<Rightarrow> nat \<Rightarrow> nat \<Rightarrow> Context \<Rightarrow> int \<Rightarrow> state \<Rightarrow> int \<times> Context \<times> int \<times> state" where
  "table_rows w n i ctx valid_readings s =
     (if i < n then
        (case get_gpu_temps w ctx i zero_gpu s of
           (r, ctx1, gpu, s1) \<Rightarrow>
             if r \<noteq> 0 then (- 1, ctx1, valid_readings, s1)
             else table_rows w n (Suc i) (print_gpu_info ctx1 i gpu)
                    (to_int (valid_readings + 1)) s1)
      else (0, ctx, valid_readings, s))"
  by pat_completeness auto
termination
  by (relation "measure (\<lambda>(w, n, i, ctx, valid_readings, s). n - i)") auto

declare table_rows.simps [simp del]

definition monitor_temperatures_table ::
  "world \<Rightarrow> Context \<Rightarrow> state \<Rightarrow> int \<times> Context \<times> state" where
  "monitor_temperatures_table w ctx s =
     (let ctx1 = ctx\<lparr>buffer_pos := 0\<rparr>;
          s1 = s\<lparr>refresh_counter := (if refresh_counter s = 0 then 1 else 0)\<rparr>;
          ctx2 = buffer_append ctx1 (NL @ (if refresh_counter s1 = 0 then ''* '' else ''  ''));
          ctx3 = buffer_append ctx2
                   (SEPARATOR @ ''  CORE  '' @ SEPARATOR @ ''  JUNC  '' @ SEPARATOR
                    @ ''  VRAM  '' @ SEPARATOR @ NL)
      in case table_rows w (device_count ctx3) 0 ctx3 0 s1 of
           (r, ctx4, valid_readings, s2) \<Rightarrow>
             if r \<noteq> 0 then (- 1, ctx4, s2)
             else
               (let ctx5 = buffer_append ctx4
                             (CHR 0x1B # ''['' @ fmt_d (to_int (valid_readings + 2)) @ ''A'')
                in (0, ctx5, emit [Stdout (c_string (output_buffer ctx5)), Fflush] s2)))"

definition json_entry :: "nat \<Rightarrow> GpuDevice \<Rightarrow> string" where
  "json_entry i gpu =
     ''{'' @ DQ @ ''index'' @ DQ @ '':'' @ fmt_u i
     @ '','' @ DQ @ ''core'' @ DQ @ '':'' @ fmt_u (unat (gpu_temp gpu))
     @ '','' @ DQ @ ''junction'' @ DQ @ '':'' @ fmt_u (unat (junction_temp gpu))
     @ '','' @ DQ @ ''vram'' @ DQ @ '':'' @ fmt_u (unat (vram_temp gpu)) @ ''}''"

function json_rows ::
  "world \<Rightarrow> nat \<Rightarrow> nat \<Rightarrow> Context \<Rightarrow> bool \<Rightarrow> state \<Rightarrow> int \<times> Context \<times> state" where
  "json_rows w n i ctx first s =
     (if i < n then
        (case get_gpu_temps w ctx i zero_gpu s of
           (r, ctx1, gpu, s1) \<Rightarrow>
             if r \<noteq> 0 then (- 1, ctx1, s1)
             else json_rows w n (Suc i) ctx1 False
                    (emit ((if \<not> first then [Stdout '',''] else [])
                           @ [Stdout (json_entry i gpu)]) s1))
      else (0, ctx, s))"
  by pat_completeness auto
termination
  by (relation "measure (\<lambda>(w, n, i, ctx, first, s). n - i)") auto

declare json_rows.simps [simp del]

definition monitor_temperatures_json ::
  "world \<Rightarrow> Context \<Rightarrow> state \<Rightarrow> int \<times> Context \<times> state" where
  "monitor_temperatures_json w ctx s =
     (let s1 = emit [Stdout (''{'' @ DQ @ ''timestamp'' @ DQ @ '':'' @ fmt_d (time_now w)
                              @ '','' @ DQ @ ''gpus'' @ DQ @ '':['')] s
      in case json_rows w (device_count ctx) 0 ctx True s1 of
           (r, ctx1, s2) \<Rightarrow>
             if r \<noteq> 0 then (- 1, ctx1, s2)
             else (0, ctx1, emit [Stdout ('']}'' @ NL), Fflush] s2))"

section \<open>Start-up (init_monitoring) and the console wait (handle_input)\<close>

definition init_monitoring :: "world \<Rightarrow> Context \<Rightarrow> state \<Rightarrow> int \<times> Context \<times> state" where
  "init_monitoring w ctx s =
     (case check_root_privileges w s of
        (r1, s1) \<Rightarrow>
          if r1 < 0 then (- 1, ctx, s1)
          else
            (case init_pci w ctx s1 of
               (r2, ctx2, s2) \<Rightarrow>
                 if r2 < 0 then (- 1, ctx2, s2)
                 else
                   (case init_nvml w ctx2 s2 of
                      (r3, ctx3, s3) \<Rightarrow>
                        if r3 < 0 then (- 1, ctx3, s3)
                        else
                          (case get_device_count w ctx3 s3 of
                             (r4, ctx4, s4) \<Rightarrow>
                               if r4 < 0 then (- 1, ctx4, s4)
                               else (0, ctx4,
                                     emit [Signal ''SIGINT'', Signal ''SIGTERM'',
                                           Signal ''SIGHUP''] s4)))))"

text \<open>\<open>struct timeval tv = {0, duration_ms * 1000}\<close>: the wait is \<open>Select 0 usec\<close>.\<close>

definition handle_input :: "world \<Rightarrow> nat \<Rightarrow> state \<Rightarrow> int \<times> state" where
  "handle_input w duration_ms s =
     (let s1 = emit [Select 0 (duration_ms * 1000)] s
      in if stdin_ready w
         then (if stdin_read w then (1, emit [Read_stdin] s1) else (0, emit [Read_stdin] s1))
         else (0, s1))"

section \<open>The two loops (run_monitoring_loop, run_json_loop)\<close>

text \<open>A loop runs through the worlds of its successive iterations. When the list is
  used up and the loop has not left, the result is \<open>None\<close>: the loop is still
  running.\<close>

definition leave_monitoring_loop :: "Context \<Rightarrow> state \<Rightarrow> int \<times> Context \<times> state" where
  "leave_monitoring_loop ctx s =
     (0, ctx,
      emit [Stdout (CHR 0x1B # ''['' @ fmt_d (to_int (int (device_count ctx) + 2)) @ ''B''),
            Stdout NL, Fflush] s)"

fun run_monitoring_loop ::
  "world list \<Rightarrow> Context \<Rightarrow> state \<Rightarrow> (int \<times> Context \<times> state) option" where
  "run_monitoring_loop [] ctx s = None"
| "run_monitoring_loop (w # ws) ctx s =
     (if \<not> running w then Some (leave_monitoring_loop ctx s)
      else
        (case monitor_temperatures_table w ctx s of
           (r, ctx1, s1) \<Rightarrow>
             if r \<noteq> 0 then Some (- 1, ctx1, s1)
             else
               (case handle_input w (REFRESH_DURATION * 1000) s1 of
                  (k, s2) \<Rightarrow>
                    if k \<noteq> 0 then Some (leave_monitoring_loop ctx1 s2)
                    else run_monitoring_loop ws ctx1 s2)))"

fun run_json_loop ::
  "world list \<Rightarrow> Context \<Rightarrow> state \<Rightarrow> (int \<times> Context \<times> state) option" where
  "run_json_loop [] ctx s = None"
| "run_json_loop (w # ws) ctx s =
     (if \<not> running w then Some (0, ctx, s)
      else
        (case monitor_temperatures_json w ctx s of
           (r, ctx1, s1) \<Rightarrow>
             if r \<noteq> 0 then Some (- 1, ctx1, s1)
             else
               (case handle_input w (REFRESH_DURATION * 1000) s1 of
                  (k, s2) \<Rightarrow>
                    if k \<noteq> 0 then Some (0, ctx1, s2)
                    else run_json_loop ws ctx1 (emit [Sleep REFRESH_DURATION] s2))))"

section \<open>The program (print_usage, main)\<close>

definition usage_text :: "string \<Rightarrow> string" where
  "usage_text prog =
     ''Usage: '' @ prog @ '' [OPTIONS]'' @ NL
     @ NL
     @ ''Options:'' @ NL
     @ ''  --json           Output temperatures in JSON format'' @ NL
     @ ''  --once           Output temperatures once'' @ NL
     @ ''  --help           Show this help message and exit'' @ NL
     @ NL
     @ ''Examples:'' @ NL
     @ ''  '' @ prog @ ''                Display and update table of GPU temperatures'' @ NL
     @ ''  '' @ prog @ '' --json         Continuously output GPU temperatures in JSON format'' @ NL
     @ ''  '' @ prog @ '' --once         Output temperatures once in table format'' @ NL
     @ ''  '' @ prog @ '' --json --once  Output temperatures once in JSON format'' @ NL"

definition print_usage :: "string \<Rightarrow> state \<Rightarrow> state" where
  "print_usage prog s = emit [Stderr (usage_text prog)] s"

text \<open>The loop of lines 383 to 396 over \<open>argv[1..]\<close>: \<open>Inl\<close> is a return from main
  with that exit status, \<open>Inr\<close> the context when the loop ends.\<close>

fun parse_args ::
  "string \<Rightarrow> string list \<Rightarrow> Context \<Rightarrow> state \<Rightarrow> (int \<times> state) + Context" where
  "parse_args prog [] ctx s = Inr ctx"
| "parse_args prog (a # as) ctx s =
     (if a = ''--json'' then parse_args prog as (ctx\<lparr>output_format := FORMAT_JSON\<rparr>) s
      else if a = ''--once'' then parse_args prog as (ctx\<lparr>output_mode := MODE_ONCE\<rparr>) s
      else if a = ''--help'' then Inl (0, print_usage prog s)
      else Inl (1, print_usage prog (emit [Stderr (''Unknown argument: '' @ a @ NL)] s)))"

text \<open>\<open>Context ctx = {0}\<close> with the two defaults of lines 380 and 381.\<close>

definition initial_context :: Context where
  "initial_context =
     \<lparr>result = 0, device_count = 0, initialized = False, pacc = False,
      output_buffer = replicate BUFFER_SIZE (CHR 0x00), buffer_pos = 0,
      output_mode = MODE_CONTINUOUS, output_format = FORMAT_TABLE\<rparr>"

definition initial_state :: state where
  "initial_state = \<lparr>trace = [], refresh_counter = 0, atexit_handlers = []\<rparr>"

text \<open>Returning from main calls the handlers registered with atexit, the latest
  first.\<close>

fun run_handlers :: "handler list \<Rightarrow> state \<Rightarrow> state" where
  "run_handlers [] s = s"
| "run_handlers (Reset_terminal # hs) s = run_handlers hs (reset_terminal s)"
| "run_handlers (Restore_cursor # hs) s = run_handlers hs (restore_cursor s)"

definition exit_main :: "int \<Rightarrow> state \<Rightarrow> int \<times> state" where
  "exit_main status s = (status, run_handlers (atexit_handlers s) s)"

text \<open>Lines 398 to 406: \<open>Inl\<close> is the return with status 1.\<close>

definition table_terminal :: "world \<Rightarrow> Context \<Rightarrow> state \<Rightarrow> (int \<times> state) + state" where
  "table_terminal w ctx s =
     (if output_format ctx = FORMAT_TABLE then
        (case setup_terminal w s of
           (r, s1) \<Rightarrow>
             if r < 0 then Inl (1, snd (cleanup_context ctx s1))
             else Inr (atexit Restore_cursor (emit [Stdout CURSOR_HIDE, Fflush] s1)))
      else Inr s)"

text \<open>Lines 413 to 422. A one-shot cycle runs in the world \<open>w\<close> of start-up; a loop
  runs through the worlds \<open>ws\<close>.\<close>

definition dispatch ::
  "world \<Rightarrow> world list \<Rightarrow> Context \<Rightarrow> state \<Rightarrow> (int \<times> Context \<times> state) option" where
  "dispatch w ws ctx s =
     (if output_format ctx = FORMAT_JSON \<and> output_mode ctx = MODE_CONTINUOUS
      then run_json_loop ws ctx s
      else if output_format ctx = FORMAT_JSON \<and> output_mode ctx = MODE_ONCE
      then Some (monitor_temperatures_json w ctx s)
      else if output_format ctx = FORMAT_TABLE \<and> output_mode ctx = MODE_CONTINUOUS
      then run_monitoring_loop ws ctx s
      else Some (monitor_temperatures_table w ctx s))"

definition main :: "world \<Rightarrow> world list \<Rightarrow> string \<Rightarrow> string list \<Rightarrow> (int \<times> state) option" where
  "main w ws prog args =
     (case parse_args prog args initial_context initial_state of
        Inl (status, s) \<Rightarrow> Some (exit_main status s)
      | Inr ctx \<Rightarrow>
          (case table_terminal w ctx initial_state of
             Inl (status, s) \<Rightarrow> Some (exit_main status s)
           | Inr s1 \<Rightarrow>
               (case init_monitoring w ctx s1 of
                  (r, ctx2, s2) \<Rightarrow>
                    if r < 0 then Some (exit_main 1 (snd (cleanup_context ctx2 s2)))
                    else
                      (case dispatch w ws ctx2 s2 of
                         None \<Rightarrow> None
                       | Some (res, ctx3, s3) \<Rightarrow>
                           Some (exit_main (if res = 0 then 0 else 1)
                                   (snd (cleanup_context ctx3 s3)))))))"

section \<open>The specification's words for correlation\<close>

text \<open>The spec (4.2): a record matches when the combined vendor/device id, the domain,
  the bus and the slot all equal the reported identity; the combined id carries the
  device id in its upper and the vendor id in its lower 16 bits.\<close>

definition spec_match :: "nvmlPciInfo_t \<Rightarrow> pci_dev \<Rightarrow> bool" where
  "spec_match info d =
     (unat (pciDeviceId info) = unat (device_id d) * 65536 + unat (vendor_id d)
      \<and> unat (pci_domain info) = unat (domain d)
      \<and> unat (pci_bus info) = unat (bus d)
      \<and> unat (pci_device info) = unat (dev d))"

section \<open>A concrete machine\<close>

text \<open>One GPU at 0000:01:00 with BAR 0 at 0xFB000000 behind a host bridge, 4 KiB
  pages, a junction register holding 50 in bits 8 to 15 and a memory register holding
  30 * 32 in bits 0 to 11; the management library reports a core temperature of 45.\<close>

definition example_bridge :: pci_dev where
  "example_bridge =
     \<lparr>domain = 0, bus = 0, dev = 0, vendor_id = 0x8086, device_id = 0x1237,
      base_addr0 = 0\<rparr>"

definition example_gpu :: pci_dev where
  "example_gpu =
     \<lparr>domain = 0, bus = 1, dev = 0, vendor_id = 0x10DE, device_id = 0x2204,
      base_addr0 = 0xFB000000\<rparr>"

definition example_info :: nvmlPciInfo_t where
  "example_info =
     \<lparr>pci_domain = 0, pci_bus = 1, pci_device = 0, pciDeviceId = 0x220410DE\<rparr>"

definition example_world :: world where
  "example_world =
     \<lparr>euid = 0, pci_alloc_ok = True, devices = [example_bridge, example_gpu],
      nvmlInit = 0, nvmlDeviceGetCount = (0, 1),
      nvmlDeviceGetHandleByIndex = (\<lambda>i. (0, i)),
      nvmlDeviceGetTemperature = (\<lambda>h. (0, 45)),
      nvmlDeviceGetPciInfo = (\<lambda>h. (0, example_info)),
      nvmlErrorString = (\<lambda>r. ''Unknown Error''),
      open_mem = None, PG_SZ = 4096, mmap_mem = (\<lambda>off. None),
      mem_word = (\<lambda>off k. if off = 0xFB020000 \<and> k = 0x46C then 0x3200
                           else if off = 0xFB00E000 \<and> k = 0x2A8 then 0x3C0 else 0),
      unreturned = (\<lambda>off. 0), time_now = 1700000000,
      tcgetattr_ok = True, tcsetattr_ok = True,
      stdin_ready = False, stdin_read = False, running = True\<rparr>"

text \<open>A second machine: two GPUs are reported, and the handle lookup for index 1
  fails with NVML error 15.\<close>

definition example_world_second_fails :: world where
  "example_world_second_fails =
     example_world\<lparr>nvmlDeviceGetCount := (0, 2),
                    nvmlDeviceGetHandleByIndex := (\<lambda>i. if i = 0 then (0, 0) else (15, 0))\<rparr>"

section \<open>Names for stating the properties of main\<close>

text \<open>The context and the state that main has built when lines 379 to 411 have run
  without an early return, for the output format and mode chosen by the arguments
  (lemma \<open>main_started\<close> proves that main gets there): in table mode the terminal
  has been set up and the cursor hidden, and in both modes the PCI bus has been
  scanned, the management library initialised, the devices counted and the signal
  handlers installed.\<close>

definition started_context :: "world \<Rightarrow> OutputFormat \<Rightarrow> OutputMode \<Rightarrow> Context" where
  "started_context w fmt mode =
     initial_context\<lparr>output_mode := mode, output_format := fmt, pacc := True, result := 0,
                     initialized := True, device_count := snd (nvmlDeviceGetCount w)\<rparr>"

definition started_state :: "OutputFormat \<Rightarrow> state" where
  "started_state fmt =
     \<lparr>trace = (if fmt = FORMAT_TABLE
                then [Tcgetattr, Atexit Reset_terminal, Tcsetattr_raw, Stdout CURSOR_HIDE,
                      Fflush, Atexit Restore_cursor]
                else [])
               @ [Geteuid, Pci_alloc, Pci_init, Pci_scan_bus, Nvml_init, Nvml_count,
                  Signal ''SIGINT'', Signal ''SIGTERM'', Signal ''SIGHUP''],
      refresh_counter = 0,
      atexit_handlers = (if fmt = FORMAT_TABLE then [Restore_cursor, Reset_terminal] else [])\<rparr>"

text \<open>One sampling-and-render cycle in the format of the context.\<close>

definition one_cycle :: "world \<Rightarrow> Context \<Rightarrow> state \<Rightarrow> int \<times> Context \<times> state" where
  "one_cycle w ctx s =
     (if output_format ctx = FORMAT_JSON then monitor_temperatures_json w ctx s
      else monitor_temperatures_table w ctx s)"

text \<open>What cleanup_context and the atexit handlers do after the last cycle.\<close>

definition teardown :: "OutputFormat \<Rightarrow> event list" where
  "teardown fmt =
     [Nvml_shutdown, Pci_cleanup]
     @ (if fmt = FORMAT_TABLE then [Stdout CURSOR_SHOW, Fflush, Tcsetattr_orig] else [])"

text \<open>The events in which the program waits, and the bytes written to standard
  output.\<close>

fun is_delay :: "event \<Rightarrow> bool" where
  "is_delay (Select sec usec) = True"
| "is_delay (Sleep sec) = True"
| "is_delay e = False"

fun stdout_of :: "event \<Rightarrow> string" where
  "stdout_of (Stdout t) = t"
| "stdout_of e = []"

definition stdout_text :: "state \<Rightarrow> string" where
  "stdout_text s = concat (map stdout_of (trace s))"

section \<open>Decoding: properties\<close>

lemma hotspot_ne_vram: "HOTSPOT_REGISTER_OFFSET \<noteq> VRAM_REGISTER_OFFSET"
  by (simp add: HOTSPOT_REGISTER_OFFSET_def VRAM_REGISTER_OFFSET_def)

lemma unat_hotspot_field:
  "unat (drop_bit 8 (raw :: u32) AND 0xff) = (unat raw div 256) mod 256"
proof -
  have "drop_bit 8 raw AND 0xff = take_bit 8 (drop_bit 8 raw)"
    by (simp add: take_bit_eq_mask mask_eq_exp_minus_1)
  then show ?thesis
    by (simp add: take_bit_eq_mod drop_bit_eq_div unat_mod unat_div)
qed

lemma unat_vram_field:
  "unat (((raw :: u32) AND 0x00000fff) div 0x20) = (unat raw mod 4096) div 32"
proof -
  have "raw AND 0xfff = take_bit 12 raw"
    by (simp add: take_bit_eq_mask mask_eq_exp_minus_1)
  then show ?thesis
    by (simp add: take_bit_eq_mod unat_mod unat_div)
qed

text \<open>Claim C1. For every raw 32-bit register word, the junction decode is
  \<open>(raw >> 8) & 0xFF\<close>, which as a number is \<open>(raw div 256) mod 256\<close> and lies in
  0..255; the VRAM decode is \<open>(raw & 0xFFF) / 32\<close>, which as a number is
  \<open>(raw mod 4096) div 32\<close> and lies in 0..127. The value \<open>old\<close> that \<open>*temp\<close> held
  before plays no part.\<close>

theorem decode_register_fields:
  "decode_register HOTSPOT_REGISTER_OFFSET raw old = drop_bit 8 raw AND 0xFF
   \<and> unat (decode_register HOTSPOT_REGISTER_OFFSET raw old) = (unat raw div 256) mod 256
   \<and> unat (decode_register HOTSPOT_REGISTER_OFFSET raw old) \<le> 255
   \<and> decode_register VRAM_REGISTER_OFFSET raw old = (raw AND 0xFFF) div 32
   \<and> unat (decode_register VRAM_REGISTER_OFFSET raw old) = (unat raw mod 4096) div 32
   \<and> unat (decode_register VRAM_REGISTER_OFFSET raw old) \<le> 127"
proof -
  have h: "decode_register HOTSPOT_REGISTER_OFFSET raw old = drop_bit 8 raw AND 0xFF"
    by (simp add: decode_register_def)
  have v: "decode_register VRAM_REGISTER_OFFSET raw old = (raw AND 0xFFF) div 32"
    using hotspot_ne_vram by (simp add: decode_register_def)
  have hb: "(unat raw div 256) mod 256 \<le> 255" by simp
  have "unat raw mod 4096 < 4096" by simp
  then have vb: "(unat raw mod 4096) div 32 \<le> 127" by linarith
  show ?thesis
    unfolding h v unat_hotspot_field unat_vram_field using hb vb by simp
qed

section \<open>Colour bands: properties\<close>

text \<open>Claim C7. With the thresholds the table uses, the core temperature is shown
  green (normal) below 70, yellow (warn) from 70 and red (danger) from 85; junction and
  VRAM are green below 80, yellow from 80 and red from 95. The three colours are
  different strings, and 69, 70 and 85 fall where the claim says.\<close>

theorem get_temp_color_bands:
  "get_temp_color t GPU_TEMP_WARN GPU_TEMP_DANGER =
     (if unat t < 70 then COLOR_GREEN else if unat t < 85 then COLOR_YELLOW else COLOR_RED)
   \<and> get_temp_color t JUNCTION_TEMP_WARN JUNCTION_TEMP_DANGER =
     (if unat t < 80 then COLOR_GREEN else if unat t < 95 then COLOR_YELLOW else COLOR_RED)
   \<and> get_temp_color t VRAM_TEMP_WARN VRAM_TEMP_DANGER =
     (if unat t < 80 then COLOR_GREEN else if unat t < 95 then COLOR_YELLOW else COLOR_RED)
   \<and> get_temp_color 69 GPU_TEMP_WARN GPU_TEMP_DANGER = COLOR_GREEN
   \<and> get_temp_color 70 GPU_TEMP_WARN GPU_TEMP_DANGER = COLOR_YELLOW
   \<and> get_temp_color 85 GPU_TEMP_WARN GPU_TEMP_DANGER = COLOR_RED
   \<and> COLOR_GREEN \<noteq> COLOR_YELLOW \<and> COLOR_YELLOW \<noteq> COLOR_RED \<and> COLOR_GREEN \<noteq> COLOR_RED"
  by (simp add: get_temp_color_def GPU_TEMP_WARN_def GPU_TEMP_DANGER_def
      JUNCTION_TEMP_WARN_def JUNCTION_TEMP_DANGER_def VRAM_TEMP_WARN_def VRAM_TEMP_DANGER_def
      COLOR_GREEN_def COLOR_YELLOW_def COLOR_RED_def word_le_nat_alt word_less_nat_alt)

section \<open>The output buffer: properties\<close>

lemma remaining_in_range:
  assumes "buffer_pos ctx \<le> BUFFER_SIZE"
  shows "to_int (int (to_size_t (int BUFFER_SIZE - int (buffer_pos ctx))))
           = int (BUFFER_SIZE - buffer_pos ctx)"
    and "to_size_t (int (BUFFER_SIZE - buffer_pos ctx)) = BUFFER_SIZE - buffer_pos ctx"
  using assms by (simp_all add: to_int_def to_size_t_def BUFFER_SIZE_def Let_def)

lemma vsnprintf_bytes_le: "length (vsnprintf_bytes n s) \<le> n"
  by (cases n) (simp_all add: vsnprintf_bytes_def)

lemma length_poke:
  "pos + length bytes \<le> length buf \<Longrightarrow> length (poke buf pos bytes) = length buf"
  by (simp add: poke_def)

lemma buffer_append_buffer:
  assumes "buffer_pos ctx \<le> BUFFER_SIZE"
  shows "output_buffer (buffer_append ctx s) =
    poke (output_buffer ctx) (buffer_pos ctx) (vsnprintf_bytes (BUFFER_SIZE - buffer_pos ctx) s)"
  using remaining_in_range [OF assms] by (simp add: buffer_append_def Let_def)

lemma buffer_append_pos:
  assumes "buffer_pos ctx \<le> BUFFER_SIZE"
  shows "buffer_pos (buffer_append ctx s) =
    (if 0 < length s \<and> length s < BUFFER_SIZE - buffer_pos ctx
     then buffer_pos ctx + length s else buffer_pos ctx)"
proof -
  have small: "length s < BUFFER_SIZE - buffer_pos ctx \<Longrightarrow> length s < 2 ^ 31"
    by (simp add: BUFFER_SIZE_def)
  have big: "\<not> length s < 2 ^ 31 \<Longrightarrow> \<not> length s < BUFFER_SIZE - buffer_pos ctx"
    using small by blast
  have conv: "to_size_t (int (buffer_pos ctx) + int (length s)) = buffer_pos ctx + length s"
    if "length s < BUFFER_SIZE - buffer_pos ctx"
    using that assms by (simp add: to_size_t_def BUFFER_SIZE_def)
  show ?thesis
    using remaining_in_range [OF assms] conv big
    by (auto simp add: buffer_append_def Let_def vsnprintf_ret_def)
qed

text \<open>Claim C10. When the write position is within the 1024-byte buffer, a call of
  buffer_append leaves it within the buffer; the bytes that vsnprintf stores end
  within the buffer, so the array keeps its 1024 bytes and the bytes before the write
  position are untouched; a text that does not fit in the remaining space (its length
  is not below the remaining space) leaves the write position where it was, with no
  error reported (the function returns nothing but the context); a non-empty text that
  fits is stored at the write position, which moves on by its length.\<close>

theorem buffer_append_in_bounds:
  assumes inv: "buffer_pos ctx \<le> BUFFER_SIZE"
    and len: "length (output_buffer ctx) = BUFFER_SIZE"
  shows "buffer_pos (buffer_append ctx s) \<le> BUFFER_SIZE
    \<and> buffer_pos ctx + length (vsnprintf_bytes (BUFFER_SIZE - buffer_pos ctx) s) \<le> BUFFER_SIZE
    \<and> length (output_buffer (buffer_append ctx s)) = BUFFER_SIZE
    \<and> take (buffer_pos ctx) (output_buffer (buffer_append ctx s))
        = take (buffer_pos ctx) (output_buffer ctx)
    \<and> (BUFFER_SIZE - buffer_pos ctx \<le> length s \<longrightarrow>
         buffer_pos (buffer_append ctx s) = buffer_pos ctx)
    \<and> (0 < length s \<and> length s < BUFFER_SIZE - buffer_pos ctx \<longrightarrow>
         buffer_pos (buffer_append ctx s) = buffer_pos ctx + length s
         \<and> take (length s) (drop (buffer_pos ctx) (output_buffer (buffer_append ctx s))) = s)"
proof -
  let ?bytes = "vsnprintf_bytes (BUFFER_SIZE - buffer_pos ctx) s"
  have ext: "buffer_pos ctx + length ?bytes \<le> BUFFER_SIZE"
    using vsnprintf_bytes_le [of "BUFFER_SIZE - buffer_pos ctx" s] inv by linarith
  have p1: "buffer_pos (buffer_append ctx s) \<le> BUFFER_SIZE"
    using inv by (auto simp add: buffer_append_pos)
  have p3: "length (output_buffer (buffer_append ctx s)) = BUFFER_SIZE"
    using ext len by (simp add: buffer_append_buffer [OF inv] length_poke)
  have p4: "take (buffer_pos ctx) (output_buffer (buffer_append ctx s))
        = take (buffer_pos ctx) (output_buffer ctx)"
    using inv len by (simp add: buffer_append_buffer [OF inv] poke_def)
  have p5: "BUFFER_SIZE - buffer_pos ctx \<le> length s \<longrightarrow>
         buffer_pos (buffer_append ctx s) = buffer_pos ctx"
    by (simp add: buffer_append_pos [OF inv])
  have p6: "take (length s) (drop (buffer_pos ctx) (output_buffer (buffer_append ctx s))) = s"
    if "length s < BUFFER_SIZE - buffer_pos ctx"
    using that inv len
    by (auto simp add: buffer_append_buffer [OF inv] poke_def vsnprintf_bytes_def)
  show ?thesis
    using ext p1 p3 p4 p5 p6 by (simp add: buffer_append_pos [OF inv])
qed

text \<open>At write position 1020 the five characters of \<open>hello\<close> do not fit and the
  position stays; in the empty buffer they are stored and the position becomes 5.\<close>

theorem buffer_append_in_bounds_witness:
  "buffer_pos (initial_context\<lparr>buffer_pos := 1020\<rparr>) \<le> BUFFER_SIZE
   \<and> length (output_buffer (initial_context\<lparr>buffer_pos := 1020\<rparr>)) = BUFFER_SIZE
   \<and> BUFFER_SIZE - buffer_pos (initial_context\<lparr>buffer_pos := 1020\<rparr>) \<le> length ''hello''
   \<and> buffer_pos (buffer_append (initial_context\<lparr>buffer_pos := 1020\<rparr>) ''hello'') = 1020
   \<and> length (output_buffer (buffer_append (initial_context\<lparr>buffer_pos := 1020\<rparr>) ''hello''))
       = 1024
   \<and> buffer_pos (buffer_append initial_context ''hello'') = 5
   \<and> take 5 (output_buffer (buffer_append initial_context ''hello'')) = ''hello''"
proof -
  let ?full = "initial_context\<lparr>buffer_pos := 1020\<rparr>"
  have a: "buffer_pos ?full \<le> BUFFER_SIZE"
    by (simp add: BUFFER_SIZE_def)
  have b: "length (output_buffer ?full) = BUFFER_SIZE"
    by (simp add: initial_context_def)
  have c: "buffer_pos initial_context \<le> BUFFER_SIZE"
    by (simp add: initial_context_def)
  have d: "length (output_buffer initial_context) = BUFFER_SIZE"
    by (simp add: initial_context_def)
  have e: "BUFFER_SIZE - buffer_pos ?full \<le> length ''hello''"
    by (simp add: BUFFER_SIZE_def)
  have f: "0 < length ''hello'' \<and> length ''hello'' < BUFFER_SIZE - buffer_pos initial_context"
    by (simp add: BUFFER_SIZE_def initial_context_def)
  have g: "buffer_pos initial_context = 0" "buffer_pos ?full = 1020"
    by (simp_all add: initial_context_def)
  have r1: "buffer_pos (buffer_append ?full ''hello'') = buffer_pos ?full"
    and r2: "length (output_buffer (buffer_append ?full ''hello'')) = BUFFER_SIZE"
    using buffer_append_in_bounds [OF a b, of "''hello''"] e by blast+
  have r3: "buffer_pos (buffer_append initial_context ''hello'')
              = buffer_pos initial_context + length ''hello''"
    and r4: "take (length ''hello'')
               (drop (buffer_pos initial_context)
                 (output_buffer (buffer_append initial_context ''hello''))) = ''hello''"
    using buffer_append_in_bounds [OF c d, of "''hello''"] f by blast+
  have h: "length ''hello'' = 5" by simp
  show ?thesis
    using a b e r1 r2 r3 r4 unfolding g h by (simp add: BUFFER_SIZE_def)
qed

section \<open>The concrete machine: facts\<close>

lemma example_world_simps:
  "euid example_world = 0"
  "pci_alloc_ok example_world"
  "devices example_world = [example_bridge, example_gpu]"
  "nvmlInit example_world = 0"
  "nvmlDeviceGetCount example_world = (0, 1)"
  "nvmlDeviceGetHandleByIndex example_world i = (0, i)"
  "nvmlDeviceGetTemperature example_world h = (0, 45)"
  "nvmlDeviceGetPciInfo example_world h = (0, example_info)"
  "nvmlErrorString example_world r = ''Unknown Error''"
  "open_mem example_world = None"
  "PG_SZ example_world = 4096"
  "mmap_mem example_world b = None"
  "mem_word example_world 0xFB020000 0x46C = 0x3200"
  "mem_word example_world 0xFB00E000 0x2A8 = 0x3C0"
  "unreturned example_world off = 0"
  "time_now example_world = 1700000000"
  "tcgetattr_ok example_world"
  "tcsetattr_ok example_world"
  "\<not> stdin_ready example_world"
  "\<not> stdin_read example_world"
  "running example_world"
  by (simp_all add: example_world_def)

lemma example_high_reg_addr:
  "reg_addr (example_gpu\<lparr>base_addr0 := 0x100000000\<rparr>) HOTSPOT_REGISTER_OFFSET = 0x2046C"
  by (simp add: reg_addr_def example_gpu_def HOTSPOT_REGISTER_OFFSET_def)

lemma example_high_base_offset: "base_offset example_world 0x2046C = 0x20000"
  by (simp add: base_offset_def example_world_def)

lemma example_reg_addr: "reg_addr example_gpu HOTSPOT_REGISTER_OFFSET = 0xFB02046C"
  by (simp add: reg_addr_def example_gpu_def HOTSPOT_REGISTER_OFFSET_def)

lemma example_base_offset: "base_offset example_world 0xFB02046C = 0xFB020000"
  by (simp add: base_offset_def example_world_def)


section \<open>Page arithmetic\<close>

lemma pow_minus_1_mask: "(2 ^ k - 1 :: 'a::len word) = mask k"
  by (simp add: mask_eq_exp_minus_1)

lemma and_not_mask_floor: "(x :: 'a::len word) AND NOT (mask k) = push_bit k (drop_bit k x)"
  by (rule bit_word_eqI) (auto simp add: bit_simps)

lemma unat_floor:
  "unat (push_bit k (drop_bit k (x :: 'a::len word))) = (unat x div 2 ^ k) * 2 ^ k"
proof -
  have le: "(unat x div 2 ^ k) * 2 ^ k \<le> unat x"
    by simp
  have "unat x < 2 ^ LENGTH('a)" by (rule unsigned_less)
  with le have lt: "(unat x div 2 ^ k) * 2 ^ k < 2 ^ LENGTH('a)" by linarith
  have "unat (push_bit k (drop_bit k x))
          = take_bit LENGTH('a) (push_bit k (unat (drop_bit k x)))"
    by (rule unsigned_push_bit_eq)
  also have "\<dots> = take_bit LENGTH('a) (push_bit k (drop_bit k (unat x)))"
    by (simp only: unat_drop_bit_eq)
  also have "\<dots> = take_bit LENGTH('a) ((unat x div 2 ^ k) * 2 ^ k)"
    by (simp only: push_bit_eq_mult drop_bit_eq_div)
  also have "\<dots> = (unat x div 2 ^ k) * 2 ^ k"
    using lt by (simp only: take_bit_nat_eq_self)
  finally show ?thesis .
qed

lemma base_offset_pow2:
  assumes "PG_SZ w = 2 ^ k"
  shows "base_offset w a = push_bit k (drop_bit k a)"
proof -
  have "(ucast ((ucast a :: u64) AND NOT (mask k)) :: u32) = a AND NOT (mask k)"
    by (rule bit_word_eqI) (auto simp add: bit_simps)
  then show ?thesis
    using assms by (simp add: base_offset_def pow_minus_1_mask and_not_mask_floor)
qed

lemma page_floor:
  assumes "PG_SZ w = 2 ^ k"
  shows "unat (base_offset w a) = (unat a div 2 ^ k) * 2 ^ k"
    and "unat (a - base_offset w a) = unat a mod 2 ^ k"
    and "unat (base_offset w a) + unat (a - base_offset w a) = unat a"
proof -
  show fl: "unat (base_offset w a) = (unat a div 2 ^ k) * 2 ^ k"
    by (simp add: base_offset_pow2 [OF assms] unat_floor)
  have "unat (base_offset w a) \<le> unat a"
    unfolding fl by simp
  then have "base_offset w a \<le> a" by (simp add: word_le_nat_alt)
  then have "unat (a - base_offset w a) = unat a - unat (base_offset w a)"
    by (rule unat_sub)
  then show m: "unat (a - base_offset w a) = unat a mod 2 ^ k"
    unfolding fl by (simp add: minus_div_mult_eq_mod)
  show "unat (base_offset w a) + unat (a - base_offset w a) = unat a"
    unfolding fl m by (rule div_mult_mod_eq)
qed

lemma reg_addr_nat:
  "unat (reg_addr d offset) = (unat (base_addr0 d) + unat offset) mod 2 ^ 32"
proof -
  have low: "base_addr0 d AND 0xFFFFFFFF = take_bit 32 (base_addr0 d)"
    by (simp add: take_bit_eq_mask mask_eq_exp_minus_1)
  have "unat (take_bit 32 (base_addr0 d)) = take_bit 32 (unat (base_addr0 d))"
    by (rule unsigned_take_bit_eq)
  also have "\<dots> = unat (base_addr0 d) mod 2 ^ 32"
    by (rule take_bit_eq_mod)
  finally have l: "unat (base_addr0 d AND 0xFFFFFFFF) = unat (base_addr0 d) mod 2 ^ 32"
    unfolding low .
  have "unat offset < 2 ^ LENGTH(32)"
    by (rule unsigned_less)
  then have lt32: "unat offset < 2 ^ 32" by simp
  then have "unat offset < 2 ^ 64" by simp
  then have o: "unat (ucast offset :: u64) = unat offset"
    by (simp add: unsigned_ucast_eq take_bit_nat_eq_self)
  have "unat (base_addr0 d) mod 2 ^ 32 < 2 ^ 32" by simp
  with lt32 have small: "unat (base_addr0 d) mod 2 ^ 32 + unat offset < 2 ^ 64" by simp
  have s: "unat ((base_addr0 d AND 0xFFFFFFFF) + (ucast offset :: u64))
             = unat (base_addr0 d) mod 2 ^ 32 + unat offset"
    using small by (simp add: unat_word_ariths l o)
  have "unat (reg_addr d offset) = (unat (base_addr0 d) mod 2 ^ 32 + unat offset) mod 2 ^ 32"
    unfolding reg_addr_def unsigned_ucast_eq s by (simp add: take_bit_eq_mod)
  then show ?thesis by (simp add: mod_add_left_eq)
qed

lemma unat_pow2_64:
  assumes "k < 64"
  shows "unat (2 ^ k :: u64) = 2 ^ k"
proof -
  have lt: "(2::nat) ^ k < 2 ^ 64"
    by (rule power_strict_increasing [OF assms]) simp
  have "unat (push_bit k (1 :: u64)) = take_bit LENGTH(64) (push_bit k (unat (1 :: u64)))"
    by (rule unsigned_push_bit_eq)
  also have "\<dots> = take_bit 64 ((2::nat) ^ k)"
    by (simp add: push_bit_eq_mult)
  also have "\<dots> = 2 ^ k"
    using lt by (simp only: take_bit_nat_eq_self)
  finally show ?thesis
    by (simp add: push_bit_eq_mult)
qed

section \<open>The register reader: properties\<close>

lemma read_register_temp_open_fails:
  assumes "open_mem w = Some e"
  shows "read_register_temp w d offset temp s =
    (Returns (- 1), temp,
     emit [Open_mem, Stderr (''Failed to open '' @ MEM_PATH @ '': '' @ e @ NL)] s)"
  using assms by (simp add: read_register_temp_def)

lemma read_register_temp_map_fails:
  assumes "open_mem w = None"
    and "mmap_mem w (base_offset w (reg_addr d offset)) = Some e"
  shows "read_register_temp w d offset temp s =
    (Returns (- 1), temp,
     emit [Open_mem, Mmap (PG_SZ w) (base_offset w (reg_addr d offset)),
           Stderr (''Failed to map memory: '' @ e @ NL), Close_mem] s)"
  using assms by (simp add: read_register_temp_def Let_def)

lemma read_register_temp_mapped:
  assumes "open_mem w = None"
    and "mmap_mem w (base_offset w (reg_addr d offset)) = None"
  shows "read_register_temp w d offset temp s =
    (No_value,
     decode_register offset
       (mem_word w (base_offset w (reg_addr d offset))
          (reg_addr d offset - base_offset w (reg_addr d offset))) temp,
     emit [Open_mem, Mmap (PG_SZ w) (base_offset w (reg_addr d offset)),
           Peek (reg_addr d offset - base_offset w (reg_addr d offset)),
           Munmap (PG_SZ w), Close_mem] s)"
  using assms by (simp add: read_register_temp_def Let_def)



text \<open>The three ways through read_register_temp: it returns -1 exactly when the open
  or the map fails, and otherwise reaches its closing brace.\<close>

lemma read_register_temp_result:
  "fst (read_register_temp w d offset temp s) =
     (if open_mem w = None \<and> mmap_mem w (base_offset w (reg_addr d offset)) = None
      then No_value else Returns (- 1))"
  by (simp add: read_register_temp_def Let_def split: option.splits)

text \<open>Claim C5, amended. The target the code uses is the 32-bit sum \<open>reg_addr\<close>, that
  is base address plus register offset modulo \<open>2 ^ 32\<close> (the sum itself when it is
  below \<open>2 ^ 32\<close>). With a page size of \<open>2 ^ k\<close> bytes and a successful open and map,
  the window is requested at the page floor of that target, its length is one page, and
  the word is read at target minus page floor, an offset below the page size; the
  temperature stored is the decode of that word.\<close>

theorem register_window_placement:
  assumes pg: "PG_SZ w = 2 ^ k" and k: "k < 64"
    and op: "open_mem w = None"
    and mp: "mmap_mem w (base_offset w (reg_addr d offset)) = None"
  shows "unat (reg_addr d offset) = (unat (base_addr0 d) + unat offset) mod 2 ^ 32
    \<and> (unat (base_addr0 d) + unat offset < 2 ^ 32 \<longrightarrow>
          unat (reg_addr d offset) = unat (base_addr0 d) + unat offset)
    \<and> trace (snd (snd (read_register_temp w d offset temp s))) =
        trace s @ [Open_mem, Mmap (PG_SZ w) (base_offset w (reg_addr d offset)),
                   Peek (reg_addr d offset - base_offset w (reg_addr d offset)),
                   Munmap (PG_SZ w), Close_mem]
    \<and> unat (PG_SZ w) = 2 ^ k
    \<and> unat (base_offset w (reg_addr d offset)) = (unat (reg_addr d offset) div 2 ^ k) * 2 ^ k
    \<and> unat (reg_addr d offset - base_offset w (reg_addr d offset))
        = unat (reg_addr d offset) - unat (base_offset w (reg_addr d offset))
    \<and> unat (reg_addr d offset - base_offset w (reg_addr d offset)) < 2 ^ k
    \<and> fst (snd (read_register_temp w d offset temp s)) =
        decode_register offset
          (mem_word w (base_offset w (reg_addr d offset))
             (reg_addr d offset - base_offset w (reg_addr d offset))) temp"
proof -
  let ?a = "reg_addr d offset"
  let ?b = "base_offset w ?a"
  have t: "unat ?a = (unat (base_addr0 d) + unat offset) mod 2 ^ 32"
    by (rule reg_addr_nat)
  have t': "unat (base_addr0 d) + unat offset < 2 ^ 32 \<longrightarrow>
          unat ?a = unat (base_addr0 d) + unat offset"
    unfolding t by simp
  have sz: "unat (PG_SZ w) = 2 ^ k"
    unfolding pg using k by (rule unat_pow2_64)
  have fl: "unat ?b = (unat ?a div 2 ^ k) * 2 ^ k"
    by (rule page_floor(1) [OF pg])
  have rest: "unat (?a - ?b) = unat ?a mod 2 ^ k"
    by (rule page_floor(2) [OF pg])
  have sum: "unat ?b + unat (?a - ?b) = unat ?a"
    by (rule page_floor(3) [OF pg])
  have diff: "unat (?a - ?b) = unat ?a - unat ?b"
    using sum by linarith
  have lt: "unat (?a - ?b) < 2 ^ k"
    unfolding rest by simp
  have run: "read_register_temp w d offset temp s =
    (No_value, decode_register offset (mem_word w ?b (?a - ?b)) temp,
     emit [Open_mem, Mmap (PG_SZ w) ?b, Peek (?a - ?b), Munmap (PG_SZ w), Close_mem] s)"
    by (rule read_register_temp_mapped [OF op mp])
  show ?thesis
    unfolding run using t t' sz fl diff lt by (simp add: emit_def)
qed


text \<open>The junction register of the example GPU: target 0xFB02046C, window at
  0xFB020000, word at 0x46C.\<close>

theorem register_window_placement_witness:
  "PG_SZ example_world = 2 ^ 12 \<and> (12 :: nat) < 64 \<and> open_mem example_world = None
   \<and> mmap_mem example_world (base_offset example_world
         (reg_addr example_gpu HOTSPOT_REGISTER_OFFSET)) = None
   \<and> unat (base_addr0 example_gpu) + unat HOTSPOT_REGISTER_OFFSET < 2 ^ 32
   \<and> unat (reg_addr example_gpu HOTSPOT_REGISTER_OFFSET) = 0xFB02046C
   \<and> trace (snd (snd (read_register_temp example_world example_gpu
                         HOTSPOT_REGISTER_OFFSET 0 initial_state))) =
        [Open_mem, Mmap 4096 0xFB020000, Peek 0x46C, Munmap 4096, Close_mem]
   \<and> unat (0xFB020000 :: u32) = (0xFB02046C div 4096) * 4096"
proof -
  have pg: "PG_SZ example_world = 2 ^ 12"
    by (simp add: example_world_simps)
  have k: "(12 :: nat) < 64" by simp
  have op: "open_mem example_world = None"
    by (simp add: example_world_simps)
  have mp: "mmap_mem example_world (base_offset example_world
         (reg_addr example_gpu HOTSPOT_REGISTER_OFFSET)) = None"
    by (simp add: example_world_simps)
  have small: "unat (base_addr0 example_gpu) + unat HOTSPOT_REGISTER_OFFSET < 2 ^ 32"
    by (simp add: example_gpu_def HOTSPOT_REGISTER_OFFSET_def)
  show ?thesis
    using pg k op mp small
      register_window_placement [OF pg k op mp, of 0 initial_state]
    by (simp add: example_reg_addr example_base_offset initial_state_def example_world_simps)
qed


text \<open>Claim C5 as stated fails for a BAR at 4 GiB: base plus offset is 0x10002046C,
  whose page floor is 0x100020000, and the window is mapped at 0x20000.\<close>

theorem register_window_counterexample:
  "trace (snd (snd (read_register_temp example_world
                      (example_gpu\<lparr>base_addr0 := 0x100000000\<rparr>)
                      HOTSPOT_REGISTER_OFFSET 0 initial_state))) =
     [Open_mem, Mmap 4096 0x20000, Peek 0x46C, Munmap 4096, Close_mem]
   \<and> ((unat (base_addr0 (example_gpu\<lparr>base_addr0 := 0x100000000\<rparr>))
         + unat HOTSPOT_REGISTER_OFFSET) div 4096) * 4096 = 0x100020000
   \<and> unat (0x20000 :: u32) \<noteq> 0x100020000"
proof -
  have "((unat (base_addr0 (example_gpu\<lparr>base_addr0 := 0x100000000\<rparr>))
         + unat HOTSPOT_REGISTER_OFFSET) div 4096) * 4096 = 0x100020000"
    by (simp add: HOTSPOT_REGISTER_OFFSET_def)
  then show ?thesis
    by (simp add: read_register_temp_def example_high_reg_addr example_high_base_offset Let_def emit_def initial_state_def
        example_world_simps)
qed

section \<open>Correlation: properties\<close>

lemma unat_ucast_16_32: "unat (ucast (x :: u16) :: u32) = unat x"
proof -
  have "unat x < 2 ^ LENGTH(16)" by (rule unsigned_less)
  then have "unat x < 2 ^ 32" by simp
  then show ?thesis
    by (simp add: unsigned_ucast_eq take_bit_nat_eq_self)
qed

lemma unat_ucast_8_32: "unat (ucast (x :: u8) :: u32) = unat x"
proof -
  have "unat x < 2 ^ LENGTH(8)" by (rule unsigned_less)
  then have "unat x < 2 ^ 32" by simp
  then show ?thesis
    by (simp add: unsigned_ucast_eq take_bit_nat_eq_self)
qed

lemma unat_combined_id:
  "unat (push_bit 16 (ucast (x :: u16) :: u32) OR ucast (y :: u16)) = unat x * 65536 + unat y"
proof -
  have xl: "unat x < 2 ^ LENGTH(16)" by (rule unsigned_less)
  have yl: "unat y < 2 ^ LENGTH(16)" by (rule unsigned_less)
  have disj: "push_bit 16 (ucast x :: u32) + ucast y = push_bit 16 (ucast x :: u32) OR ucast y"
    by (rule disjunctive_add) (auto simp add: bit_simps dest: bit_imp_le_length)
  have "unat (push_bit 16 (ucast x :: u32)) = take_bit LENGTH(32) (push_bit 16 (unat (ucast x :: u32)))"
    by (rule unsigned_push_bit_eq)
  also have "\<dots> = take_bit 32 (unat x * 65536)"
    by (simp only: unat_ucast_16_32 push_bit_eq_mult) simp
  also have "\<dots> = unat x * 65536"
    using xl by (simp add: take_bit_nat_eq_self)
  finally have hi: "unat (push_bit 16 (ucast x :: u32)) = unat x * 65536" .
  have "unat (push_bit 16 (ucast x :: u32)) + unat (ucast y :: u32) < 2 ^ LENGTH(32)"
    unfolding hi unat_ucast_16_32 using xl yl by simp
  then have "unat (push_bit 16 (ucast x :: u32) + ucast y)
               = unat (push_bit 16 (ucast x :: u32)) + unat (ucast y :: u32)"
    by (simp only: unat_add_lem)
  then show ?thesis
    unfolding disj [symmetric] hi unat_ucast_16_32 .
qed

lemma skipped_iff: "skipped info d \<longleftrightarrow> \<not> spec_match info d"
proof -
  have a: "push_bit 16 (ucast (device_id d) :: u32) OR ucast (vendor_id d) = pciDeviceId info
      \<longleftrightarrow> unat (pciDeviceId info) = unat (device_id d) * 65536 + unat (vendor_id d)"
    by (auto simp add: word_unat_eq_iff unat_combined_id)
  have b: "domain d = pci_domain info \<longleftrightarrow> unat (pci_domain info) = unat (domain d)"
    by (auto simp add: word_unat_eq_iff)
  have c: "ucast (bus d) = pci_bus info \<longleftrightarrow> unat (pci_bus info) = unat (bus d)"
    by (auto simp add: word_unat_eq_iff unat_ucast_8_32)
  have e: "ucast (dev d) = pci_device info \<longleftrightarrow> unat (pci_device info) = unat (dev d)"
    by (auto simp add: word_unat_eq_iff unat_ucast_8_32)
  show ?thesis
    unfolding skipped_def spec_match_def using a b c e by blast
qed

lemma scan_devices_find:
  "scan_devices w ds gpu s =
     (case find (spec_match (pci_info gpu)) ds of
        None \<Rightarrow> (- 1, gpu, s)
      | Some d \<Rightarrow> scan_devices w [d] gpu s)"
proof (induction ds)
  case Nil
  show ?case by simp
next
  case (Cons d ds)
  show ?case
  proof (cases "spec_match (pci_info gpu) d")
    case True
    then have "\<not> skipped (pci_info gpu) d" by (simp add: skipped_iff)
    with True show ?thesis by simp
  next
    case False
    then have "skipped (pci_info gpu) d" by (simp add: skipped_iff)
    with False Cons show ?thesis by simp
  qed
qed

lemma spec_match_field_change:
  assumes "spec_match info d"
    and "vendor_id d' \<noteq> vendor_id d \<or> device_id d' \<noteq> device_id d
         \<or> domain d' \<noteq> domain d \<or> bus d' \<noteq> bus d \<or> dev d' \<noteq> dev d"
  shows "\<not> spec_match info d'"
proof
  assume m: "spec_match info d'"
  have vl: "unat (vendor_id d) < 65536" "unat (vendor_id d') < 65536"
    using unsigned_less [of "vendor_id d", where 'a = nat]
      unsigned_less [of "vendor_id d'", where 'a = nat] by simp_all
  from assms(1) m have
    id: "unat (device_id d) * 65536 + unat (vendor_id d)
          = unat (device_id d') * 65536 + unat (vendor_id d')"
    and "unat (domain d) = unat (domain d')"
    and "unat (bus d) = unat (bus d')"
    and "unat (dev d) = unat (dev d')"
    by (simp_all add: spec_match_def)
  then have eqs: "domain d = domain d'" "bus d = bus d'" "dev d = dev d'"
    by (simp_all add: word_unat_eq_iff)
  from id have "(unat (device_id d) * 65536 + unat (vendor_id d)) div 65536
                 = (unat (device_id d') * 65536 + unat (vendor_id d')) div 65536"
    by (rule arg_cong)
  with vl have de: "unat (device_id d) = unat (device_id d')"
    by simp
  with id have ve: "unat (vendor_id d) = unat (vendor_id d')"
    by simp
  note de ve
  then have "device_id d = device_id d'" "vendor_id d = vendor_id d'"
    by (simp_all add: word_unat_eq_iff)
  with eqs assms(2) show False by simp
qed

lemma emit_emit: "emit es (emit es' s) = emit (es' @ es) s"
  by (simp add: emit_def)

lemma trace_emit: "trace (emit es s) = trace s @ es"
  by (simp add: emit_def)

lemma read_register_temp_trace:
  "\<exists>es. trace (snd (snd (read_register_temp w d offset temp s))) = trace s @ Open_mem # es"
  by (simp add: read_register_temp_def Let_def trace_emit split: option.splits)

lemma scan_devices_match_trace:
  assumes "spec_match (pci_info gpu) d"
  shows "\<exists>es. trace (snd (snd (scan_devices w [d] gpu s))) = trace s @ Open_mem # es"
proof -
  have ns: "\<not> skipped (pci_info gpu) d"
    using assms by (simp add: skipped_iff)
  obtain r1 t1 s1 where h: "read_register_temp w d HOTSPOT_REGISTER_OFFSET (junction_temp gpu) s
      = (r1, t1, s1)"
    by (cases "read_register_temp w d HOTSPOT_REGISTER_OFFSET (junction_temp gpu) s")
  obtain es1 where e1: "trace s1 = trace s @ Open_mem # es1"
    using read_register_temp_trace [of w d HOTSPOT_REGISTER_OFFSET "junction_temp gpu" s] h
    by auto
  obtain r2 t2 s2 where v: "read_register_temp w d VRAM_REGISTER_OFFSET (vram_temp gpu) s1
      = (r2, t2, s2)"
    by (cases "read_register_temp w d VRAM_REGISTER_OFFSET (vram_temp gpu) s1")
  obtain es2 where e2: "trace s2 = trace s1 @ Open_mem # es2"
    using read_register_temp_trace [of w d VRAM_REGISTER_OFFSET "vram_temp gpu" s1] v
    by auto
  show ?thesis
    using ns h v e1 e2 by (auto simp add: Let_def)
qed

lemma get_gpu_temps_queries_ok:
  assumes "fst (nvmlDeviceGetHandleByIndex w i) = 0"
    and "fst (nvmlDeviceGetTemperature w (snd (nvmlDeviceGetHandleByIndex w i))) = 0"
    and "fst (nvmlDeviceGetPciInfo w (snd (nvmlDeviceGetHandleByIndex w i))) = 0"
  shows "get_gpu_temps w ctx i gpu s =
    (case scan_devices w (devices w)
            (gpu\<lparr>device := snd (nvmlDeviceGetHandleByIndex w i),
                 gpu_temp := snd (nvmlDeviceGetTemperature w (snd (nvmlDeviceGetHandleByIndex w i))),
                 pci_info := snd (nvmlDeviceGetPciInfo w (snd (nvmlDeviceGetHandleByIndex w i)))\<rparr>)
            (emit [Nvml_handle i,
                   Nvml_temperature (snd (nvmlDeviceGetHandleByIndex w i)),
                   Nvml_pci_info (snd (nvmlDeviceGetHandleByIndex w i))] s) of
       (r, gpu', s') \<Rightarrow> (r, ctx\<lparr>result := 0\<rparr>, gpu', s'))"
  using assms
  by (simp add: get_gpu_temps_def get_device_handle_def get_gpu_temp_def
      get_device_pci_info_def Let_def emit_emit split: prod.splits)


text \<open>Claim C2. The loop of get_gpu_temps skips a record exactly when it is not a
  match in the spec's sense (all four of combined vendor/device id, domain, bus and
  slot equal the reported identity). Over any device list the loop acts as if it had
  been handed only the first matching record, and returns -1 without touching the state
  when there is none; so a record matches somewhere in the list if and only if the loop
  goes on to the register reads (the trace grows). A record that differs from a
  matching one in the vendor id, the device id, the domain, the bus or the slot does
  not match, and a list holding only that record gives -1. With the three
  management-library queries succeeding and no matching record, get_gpu_temps returns
  -1 having done nothing but the three queries.\<close>

theorem correlation_exact:
  "(skipped info d \<longleftrightarrow> \<not> spec_match info d)
   \<and> scan_devices w ds gpu s =
       (case find (spec_match (pci_info gpu)) ds of
          None \<Rightarrow> (- 1, gpu, s)
        | Some m \<Rightarrow> scan_devices w [m] gpu s)
   \<and> ((\<exists>m \<in> set ds. spec_match (pci_info gpu) m)
        \<longleftrightarrow> trace (snd (snd (scan_devices w ds gpu s))) \<noteq> trace s)
   \<and> (spec_match info d
        \<and> (vendor_id d' \<noteq> vendor_id d \<or> device_id d' \<noteq> device_id d
            \<or> domain d' \<noteq> domain d \<or> bus d' \<noteq> bus d \<or> dev d' \<noteq> dev d)
        \<longrightarrow> \<not> spec_match info d'
            \<and> scan_devices w [d'] (gpu\<lparr>pci_info := info\<rparr>) s = (- 1, gpu\<lparr>pci_info := info\<rparr>, s))
   \<and> (fst (nvmlDeviceGetHandleByIndex w i) = 0
        \<and> fst (nvmlDeviceGetTemperature w (snd (nvmlDeviceGetHandleByIndex w i))) = 0
        \<and> fst (nvmlDeviceGetPciInfo w (snd (nvmlDeviceGetHandleByIndex w i))) = 0
        \<and> find (spec_match (snd (nvmlDeviceGetPciInfo w (snd (nvmlDeviceGetHandleByIndex w i)))))
             (devices w) = None
        \<longrightarrow> fst (get_gpu_temps w ctx i gpu s) = - 1
            \<and> trace (snd (snd (snd (get_gpu_temps w ctx i gpu s)))) =
                trace s @ [Nvml_handle i,
                           Nvml_temperature (snd (nvmlDeviceGetHandleByIndex w i)),
                           Nvml_pci_info (snd (nvmlDeviceGetHandleByIndex w i))])"
proof -
  have p1: "skipped info d \<longleftrightarrow> \<not> spec_match info d"
    by (rule skipped_iff)
  have p2: "scan_devices w ds gpu s =
       (case find (spec_match (pci_info gpu)) ds of
          None \<Rightarrow> (- 1, gpu, s)
        | Some m \<Rightarrow> scan_devices w [m] gpu s)"
    by (rule scan_devices_find)
  have p3: "(\<exists>m \<in> set ds. spec_match (pci_info gpu) m)
        \<longleftrightarrow> trace (snd (snd (scan_devices w ds gpu s))) \<noteq> trace s"
  proof (cases "find (spec_match (pci_info gpu)) ds")
    case None
    then have "\<not> (\<exists>m \<in> set ds. spec_match (pci_info gpu) m)"
      by (simp add: find_None_iff)
    moreover have "scan_devices w ds gpu s = (- 1, gpu, s)"
      using None by (simp add: scan_devices_find [of w ds])
    ultimately show ?thesis by simp
  next
    case (Some m)
    then have mm: "spec_match (pci_info gpu) m" and "m \<in> set ds"
      by (auto simp add: find_Some_iff)
    then have ex: "\<exists>m \<in> set ds. spec_match (pci_info gpu) m" by blast
    have "scan_devices w ds gpu s = scan_devices w [m] gpu s"
      using Some by (simp add: scan_devices_find [of w ds])
    moreover obtain es where "trace (snd (snd (scan_devices w [m] gpu s))) = trace s @ Open_mem # es"
      using scan_devices_match_trace [OF mm] by blast
    ultimately have "trace (snd (snd (scan_devices w ds gpu s))) \<noteq> trace s"
      by simp
    with ex show ?thesis by simp
  qed
  have p4: "\<not> spec_match info d'
            \<and> scan_devices w [d'] (gpu\<lparr>pci_info := info\<rparr>) s = (- 1, gpu\<lparr>pci_info := info\<rparr>, s)"
    if "spec_match info d"
      and "vendor_id d' \<noteq> vendor_id d \<or> device_id d' \<noteq> device_id d
            \<or> domain d' \<noteq> domain d \<or> bus d' \<noteq> bus d \<or> dev d' \<noteq> dev d"
  proof -
    have n: "\<not> spec_match info d'"
      using that by (rule spec_match_field_change)
    then have "skipped (pci_info (gpu\<lparr>pci_info := info\<rparr>)) d'"
      by (simp add: skipped_iff)
    then have "scan_devices w [d'] (gpu\<lparr>pci_info := info\<rparr>) s = (- 1, gpu\<lparr>pci_info := info\<rparr>, s)"
      by simp
    with n show ?thesis by simp
  qed
  have p5: "fst (get_gpu_temps w ctx i gpu s) = - 1
            \<and> trace (snd (snd (snd (get_gpu_temps w ctx i gpu s)))) =
                trace s @ [Nvml_handle i,
                           Nvml_temperature (snd (nvmlDeviceGetHandleByIndex w i)),
                           Nvml_pci_info (snd (nvmlDeviceGetHandleByIndex w i))]"
    if a: "fst (nvmlDeviceGetHandleByIndex w i) = 0"
      and b: "fst (nvmlDeviceGetTemperature w (snd (nvmlDeviceGetHandleByIndex w i))) = 0"
      and c: "fst (nvmlDeviceGetPciInfo w (snd (nvmlDeviceGetHandleByIndex w i))) = 0"
      and f: "find (spec_match (snd (nvmlDeviceGetPciInfo w (snd (nvmlDeviceGetHandleByIndex w i)))))
             (devices w) = None"
    using f
    by (simp add: get_gpu_temps_queries_ok [OF a b c] scan_devices_find [of w "devices w"]
        trace_emit)
  show ?thesis
    using p1 p2 p3 p4 p5 by blast
qed

lemma example_gpu_matches: "spec_match example_info example_gpu"
  by (simp add: spec_match_def example_info_def example_gpu_def)

lemma example_bridge_differs: "\<not> spec_match example_info example_bridge"
  by (simp add: spec_match_def example_info_def example_bridge_def)


text \<open>On the example machine the GPU record matches and the bridge does not; the GPU
  record with its bus changed to 2 no longer matches; the list bridge, GPU is handled
  as the GPU alone; and with only the bridge on the bus the sampler fails after the
  three queries.\<close>

theorem correlation_exact_witness:
  "spec_match example_info example_gpu
   \<and> bus (example_gpu\<lparr>bus := 2\<rparr>) \<noteq> bus example_gpu
   \<and> \<not> spec_match example_info (example_gpu\<lparr>bus := 2\<rparr>)
   \<and> scan_devices example_world [example_gpu\<lparr>bus := 2\<rparr>]
        (zero_gpu\<lparr>pci_info := example_info\<rparr>) initial_state
      = (- 1, zero_gpu\<lparr>pci_info := example_info\<rparr>, initial_state)
   \<and> scan_devices example_world [example_bridge, example_gpu]
        (zero_gpu\<lparr>pci_info := example_info\<rparr>) initial_state
      = scan_devices example_world [example_gpu]
          (zero_gpu\<lparr>pci_info := example_info\<rparr>) initial_state
   \<and> trace (snd (snd (scan_devices example_world [example_bridge, example_gpu]
        (zero_gpu\<lparr>pci_info := example_info\<rparr>) initial_state))) \<noteq> trace initial_state
   \<and> fst (get_gpu_temps (example_world\<lparr>devices := [example_bridge]\<rparr>)
            initial_context 0 zero_gpu initial_state) = - 1
   \<and> trace (snd (snd (snd (get_gpu_temps (example_world\<lparr>devices := [example_bridge]\<rparr>)
            initial_context 0 zero_gpu initial_state))))
      = [Nvml_handle 0, Nvml_temperature 0, Nvml_pci_info 0]"
proof -
  let ?g = "zero_gpu\<lparr>pci_info := example_info\<rparr>"
  let ?w = "example_world\<lparr>devices := [example_bridge]\<rparr>"
  have ch: "bus (example_gpu\<lparr>bus := 2\<rparr>) \<noteq> bus example_gpu"
    by (simp add: example_gpu_def)
  have fnd: "find (spec_match (pci_info ?g)) [example_bridge, example_gpu] = Some example_gpu"
    by (simp add: example_gpu_matches example_bridge_differs)
  have ex: "\<exists>m \<in> set [example_bridge, example_gpu]. spec_match (pci_info ?g) m"
    by (simp add: example_gpu_matches)
  have q: "fst (nvmlDeviceGetHandleByIndex ?w 0) = 0
        \<and> fst (nvmlDeviceGetTemperature ?w (snd (nvmlDeviceGetHandleByIndex ?w 0))) = 0
        \<and> fst (nvmlDeviceGetPciInfo ?w (snd (nvmlDeviceGetHandleByIndex ?w 0))) = 0
        \<and> find (spec_match (snd (nvmlDeviceGetPciInfo ?w (snd (nvmlDeviceGetHandleByIndex ?w 0)))))
             (devices ?w) = None"
    by (simp add: example_world_def example_bridge_differs)
  have h: "snd (nvmlDeviceGetHandleByIndex ?w 0) = 0"
    by (simp add: example_world_def)
  note t1 = correlation_exact [where info = example_info and d = example_gpu
      and d' = "example_gpu\<lparr>bus := 2\<rparr>" and w = example_world
      and ds = "[example_bridge, example_gpu]" and gpu = ?g and s = initial_state]
  note t2 = correlation_exact [where w = ?w and i = 0 and ctx = initial_context
      and gpu = zero_gpu and s = initial_state]
  have r4: "\<not> spec_match example_info (example_gpu\<lparr>bus := 2\<rparr>)
      \<and> scan_devices example_world [example_gpu\<lparr>bus := 2\<rparr>] (?g\<lparr>pci_info := example_info\<rparr>)
          initial_state = (- 1, ?g\<lparr>pci_info := example_info\<rparr>, initial_state)"
    using t1 example_gpu_matches ch by blast
  have r2: "scan_devices example_world [example_bridge, example_gpu] ?g initial_state
      = scan_devices example_world [example_gpu] ?g initial_state"
    using t1 fnd by simp
  have r3: "trace (snd (snd (scan_devices example_world [example_bridge, example_gpu] ?g
      initial_state))) \<noteq> trace initial_state"
    using t1 ex by blast
  have r5: "fst (get_gpu_temps ?w initial_context 0 zero_gpu initial_state) = - 1
      \<and> trace (snd (snd (snd (get_gpu_temps ?w initial_context 0 zero_gpu initial_state))))
         = trace initial_state @ [Nvml_handle 0,
             Nvml_temperature (snd (nvmlDeviceGetHandleByIndex ?w 0)),
             Nvml_pci_info (snd (nvmlDeviceGetHandleByIndex ?w 0))]"
    using t2 q by blast
  have ti: "trace initial_state = []"
    by (simp add: initial_state_def)
  show ?thesis
    using example_gpu_matches ch r4 r2 r3 r5 unfolding h ti by simp
qed

section \<open>Arguments: properties\<close>

lemma parse_args_help:
  assumes "set pre \<subseteq> {''--json'', ''--once''}"
  shows "parse_args prog (pre @ ''--help'' # rest) ctx s = Inl (0, print_usage prog s)"
  using assms by (induction pre arbitrary: ctx) auto

lemma parse_args_unknown:
  assumes "set pre \<subseteq> {''--json'', ''--once''}"
    and "a \<notin> {''--json'', ''--once'', ''--help''}"
  shows "parse_args prog (pre @ a # rest) ctx s
     = Inl (1, print_usage prog (emit [Stderr (''Unknown argument: '' @ a @ NL)] s))"
  using assms by (induction pre arbitrary: ctx) auto

lemma parse_args_flags:
  assumes "set args \<subseteq> {''--json'', ''--once''}"
  shows "parse_args prog args ctx s =
     Inr (ctx\<lparr>output_mode := (if ''--once'' \<in> set args then MODE_ONCE else output_mode ctx),
              output_format := (if ''--json'' \<in> set args then FORMAT_JSON
                                else output_format ctx)\<rparr>)"
  using assms by (induction args arbitrary: ctx) auto


text \<open>Claim C8, amended. The arguments are read in order, and the first one that is
  neither \<open>--json\<close> nor \<open>--once\<close> decides: if it is \<open>--help\<close>, the usage text is
  written to standard error and the process exits 0; if it is anything else, the line
  naming the unknown argument and the usage text are written to standard error and the
  process exits 1. In both cases nothing else has happened: no terminal set-up, no
  initialisation, no sampling (the trace holds only these writes).\<close>

theorem first_other_argument_decides:
  assumes "set pre \<subseteq> {''--json'', ''--once''}"
  shows "main w ws prog (pre @ ''--help'' # rest)
       = Some (0, \<lparr>trace = [Stderr (usage_text prog)], refresh_counter = 0,
                    atexit_handlers = []\<rparr>)
   \<and> (a \<notin> {''--json'', ''--once'', ''--help''} \<longrightarrow>
        main w ws prog (pre @ a # rest)
          = Some (1, \<lparr>trace = [Stderr (''Unknown argument: '' @ a @ NL),
                                 Stderr (usage_text prog)],
                       refresh_counter = 0, atexit_handlers = []\<rparr>))"
proof -
  have h: "main w ws prog (pre @ ''--help'' # rest)
       = Some (0, \<lparr>trace = [Stderr (usage_text prog)], refresh_counter = 0,
                    atexit_handlers = []\<rparr>)"
    by (simp add: main_def parse_args_help [OF assms] print_usage_def emit_def
        initial_state_def exit_main_def)
  have u: "main w ws prog (pre @ a # rest)
          = Some (1, \<lparr>trace = [Stderr (''Unknown argument: '' @ a @ NL),
                                 Stderr (usage_text prog)],
                       refresh_counter = 0, atexit_handlers = []\<rparr>)"
    if "a \<notin> {''--json'', ''--once'', ''--help''}"
    by (simp add: main_def parse_args_unknown [OF assms that] print_usage_def emit_def
        initial_state_def exit_main_def)
  show ?thesis using h u by blast
qed


text \<open>After \<open>--json\<close>, \<open>--help\<close> before \<open>--bogus\<close> exits 0 and \<open>--bogus\<close> before
  \<open>--help\<close> exits 1.\<close>

theorem first_other_argument_decides_witness:
  "set [''--json''] \<subseteq> {''--json'', ''--once''}
   \<and> ''--bogus'' \<notin> {''--json'', ''--once'', ''--help''}
   \<and> map_option fst (main example_world [] ''gputemps'' [''--json'', ''--help'', ''--bogus'']) = Some 0
   \<and> map_option fst (main example_world [] ''gputemps'' [''--json'', ''--bogus'', ''--help'']) = Some 1
   \<and> map_option (trace \<circ> snd) (main example_world [] ''gputemps'' [''--json'', ''--bogus''])
       = Some [Stderr (''Unknown argument: --bogus'' @ NL), Stderr (usage_text ''gputemps'')]"
proof -
  have p: "set [''--json''] \<subseteq> {''--json'', ''--once''}" by simp
  have b: "''--bogus'' \<notin> {''--json'', ''--once'', ''--help''}" by simp
  note t1 = first_other_argument_decides [OF p, of example_world "[]" "''gputemps''"
      "[''--bogus'']" "''--bogus''" ]
  note t2 = first_other_argument_decides [OF p, of example_world "[]" "''gputemps''"
      "[''--help'']" "''--bogus''" ]
  note t3 = first_other_argument_decides [OF p, of example_world "[]" "''gputemps''"
      "[]" "''--bogus''" ]
  show ?thesis
    using p b t1 t2 t3 by simp
qed


text \<open>Claim C8 as stated fails where both kinds of argument occur: a list that
  contains \<open>--help\<close> after an unknown flag exits 1, and a list that contains an unknown
  flag after \<open>--help\<close> exits 0.\<close>

theorem argument_order_counterexample:
  "''--help'' \<in> set [''--bogus'', ''--help'']
   \<and> map_option fst (main example_world [] ''gputemps'' [''--bogus'', ''--help'']) = Some 1
   \<and> ''--bogus'' \<in> set [''--help'', ''--bogus'']
   \<and> map_option fst (main example_world [] ''gputemps'' [''--help'', ''--bogus'']) = Some 0"
  by (simp add: main_def exit_main_def print_usage_def emit_def initial_state_def)

section \<open>What a cycle leaves alone\<close>

lemma emit_fields [simp]:
  "atexit_handlers (emit es s) = atexit_handlers s"
  "refresh_counter (emit es s) = refresh_counter s"
  by (simp_all add: emit_def)

lemma buffer_append_fields [simp]:
  "initialized (buffer_append ctx t) = initialized ctx"
  "pacc (buffer_append ctx t) = pacc ctx"
  "device_count (buffer_append ctx t) = device_count ctx"
  by (simp_all add: buffer_append_def Let_def)

lemma print_gpu_info_fields [simp]:
  "initialized (print_gpu_info ctx i gpu) = initialized ctx"
  "pacc (print_gpu_info ctx i gpu) = pacc ctx"
  "device_count (print_gpu_info ctx i gpu) = device_count ctx"
  by (simp_all add: print_gpu_info_def)

lemma read_register_temp_handlers [simp]:
  "atexit_handlers (snd (snd (read_register_temp w d offset temp s))) = atexit_handlers s"
  by (simp add: read_register_temp_def Let_def split: option.splits)

lemma scan_devices_handlers [simp]:
  "atexit_handlers (snd (snd (scan_devices w ds gpu s))) = atexit_handlers s"
proof (induction ds)
  case Nil
  show ?case by simp
next
  case (Cons d ds)
  have one: "atexit_handlers (snd (snd (scan_devices w [d] gpu s))) = atexit_handlers s"
    if "\<not> skipped (pci_info gpu) d"
  proof -
    obtain r1 t1 s1 where h: "read_register_temp w d HOTSPOT_REGISTER_OFFSET (junction_temp gpu) s
        = (r1, t1, s1)"
      by (cases "read_register_temp w d HOTSPOT_REGISTER_OFFSET (junction_temp gpu) s")
    obtain r2 t2 s2 where v: "read_register_temp w d VRAM_REGISTER_OFFSET (vram_temp gpu) s1
        = (r2, t2, s2)"
      by (cases "read_register_temp w d VRAM_REGISTER_OFFSET (vram_temp gpu) s1")
    have a1: "atexit_handlers s1 = atexit_handlers s"
      using read_register_temp_handlers [of w d HOTSPOT_REGISTER_OFFSET "junction_temp gpu" s] h
      by simp
    have a2: "atexit_handlers s2 = atexit_handlers s1"
      using read_register_temp_handlers [of w d VRAM_REGISTER_OFFSET "vram_temp gpu" s1] v
      by simp
    show ?thesis
      using that h v a1 a2 by simp
  qed
  show ?case
  proof (cases "skipped (pci_info gpu) d")
    case True
    with Cons show ?thesis by simp
  next
    case False
    have "scan_devices w (d # ds) gpu s = scan_devices w [d] gpu s"
      using False by simp
    with one [OF False] show ?thesis by simp
  qed
qed

lemma get_gpu_temps_fields:
  "initialized (fst (snd (get_gpu_temps w ctx i gpu s))) = initialized ctx
   \<and> pacc (fst (snd (get_gpu_temps w ctx i gpu s))) = pacc ctx
   \<and> device_count (fst (snd (get_gpu_temps w ctx i gpu s))) = device_count ctx
   \<and> atexit_handlers (snd (snd (snd (get_gpu_temps w ctx i gpu s)))) = atexit_handlers s"
proof -
  show ?thesis
    by (auto simp add: get_gpu_temps_def get_device_handle_def get_gpu_temp_def
        get_device_pci_info_def Let_def split: prod.splits)
       (metis scan_devices_handlers emit_fields(1) snd_conv)+
qed

lemma table_rows_fields:
  "initialized (fst (snd (table_rows w n i ctx v s))) = initialized ctx
   \<and> pacc (fst (snd (table_rows w n i ctx v s))) = pacc ctx
   \<and> device_count (fst (snd (table_rows w n i ctx v s))) = device_count ctx
   \<and> atexit_handlers (snd (snd (snd (table_rows w n i ctx v s)))) = atexit_handlers s"
proof (induction w n i ctx v s rule: table_rows.induct)
  case (1 w n i ctx v s)
  show ?case
  proof (cases "i < n")
    case False
    then show ?thesis by (simp add: table_rows.simps)
  next
    case True
    obtain r ctx1 gpu s1 where g: "get_gpu_temps w ctx i zero_gpu s = (r, ctx1, gpu, s1)"
      by (cases "get_gpu_temps w ctx i zero_gpu s")
    have f: "initialized ctx1 = initialized ctx \<and> pacc ctx1 = pacc ctx
        \<and> device_count ctx1 = device_count ctx \<and> atexit_handlers s1 = atexit_handlers s"
      using get_gpu_temps_fields [of w ctx i zero_gpu s] g by simp
    show ?thesis
    proof (cases "r = 0")
      case False
      with True g f show ?thesis
        by (simp add: table_rows.simps [of w n i])
    next
      case r0: True
      have ih: "initialized (fst (snd (table_rows w n (Suc i) (print_gpu_info ctx1 i gpu)
                    (to_int (v + 1)) s1))) = initialized (print_gpu_info ctx1 i gpu)
        \<and> pacc (fst (snd (table_rows w n (Suc i) (print_gpu_info ctx1 i gpu)
                    (to_int (v + 1)) s1))) = pacc (print_gpu_info ctx1 i gpu)
        \<and> device_count (fst (snd (table_rows w n (Suc i) (print_gpu_info ctx1 i gpu)
                    (to_int (v + 1)) s1))) = device_count (print_gpu_info ctx1 i gpu)
        \<and> atexit_handlers (snd (snd (snd (table_rows w n (Suc i) (print_gpu_info ctx1 i gpu)
                    (to_int (v + 1)) s1)))) = atexit_handlers s1"
        using "1.IH" [OF True g [symmetric] _ ] r0 by simp
      have "table_rows w n i ctx v s
          = table_rows w n (Suc i) (print_gpu_info ctx1 i gpu) (to_int (v + 1)) s1"
        using True g r0 by (simp add: table_rows.simps [of w n i])
      with ih f show ?thesis by simp
    qed
  qed
qed

lemma json_rows_fields:
  "initialized (fst (snd (json_rows w n i ctx first s))) = initialized ctx
   \<and> pacc (fst (snd (json_rows w n i ctx first s))) = pacc ctx
   \<and> device_count (fst (snd (json_rows w n i ctx first s))) = device_count ctx
   \<and> atexit_handlers (snd (snd (json_rows w n i ctx first s))) = atexit_handlers s"
proof (induction w n i ctx first s rule: json_rows.induct)
  case (1 w n i ctx first s)
  show ?case
  proof (cases "i < n")
    case False
    then show ?thesis by (simp add: json_rows.simps)
  next
    case True
    obtain r ctx1 gpu s1 where g: "get_gpu_temps w ctx i zero_gpu s = (r, ctx1, gpu, s1)"
      by (cases "get_gpu_temps w ctx i zero_gpu s")
    have f: "initialized ctx1 = initialized ctx \<and> pacc ctx1 = pacc ctx
        \<and> device_count ctx1 = device_count ctx \<and> atexit_handlers s1 = atexit_handlers s"
      using get_gpu_temps_fields [of w ctx i zero_gpu s] g by simp
    show ?thesis
    proof (cases "r = 0")
      case False
      with True g f show ?thesis
        by (simp add: json_rows.simps [of w n i])
    next
      case r0: True
      let ?s2 = "emit ((if \<not> first then [Stdout '',''] else []) @ [Stdout (json_entry i gpu)]) s1"
      have ih: "initialized (fst (snd (json_rows w n (Suc i) ctx1 False ?s2))) = initialized ctx1
        \<and> pacc (fst (snd (json_rows w n (Suc i) ctx1 False ?s2))) = pacc ctx1
        \<and> device_count (fst (snd (json_rows w n (Suc i) ctx1 False ?s2))) = device_count ctx1
        \<and> atexit_handlers (snd (snd (json_rows w n (Suc i) ctx1 False ?s2))) = atexit_handlers ?s2"
        using "1.IH" [OF True g [symmetric] _ ] r0 by simp
      have "json_rows w n i ctx first s = json_rows w n (Suc i) ctx1 False ?s2"
        using True g r0 by (simp add: json_rows.simps [of w n i])
      with ih f show ?thesis by simp
    qed
  qed
qed

lemma monitor_temperatures_table_fields:
  "initialized (fst (snd (monitor_temperatures_table w ctx s))) = initialized ctx
   \<and> pacc (fst (snd (monitor_temperatures_table w ctx s))) = pacc ctx
   \<and> device_count (fst (snd (monitor_temperatures_table w ctx s))) = device_count ctx
   \<and> atexit_handlers (snd (snd (monitor_temperatures_table w ctx s))) = atexit_handlers s"
proof -
  let ?s1 = "s\<lparr>refresh_counter := (if refresh_counter s = 0 then 1 else 0)\<rparr>"
  let ?c3 = "buffer_append
     (buffer_append (ctx\<lparr>buffer_pos := 0\<rparr>)
        (NL @ (if refresh_counter ?s1 = 0 then ''* '' else ''  '')))
     (SEPARATOR @ ''  CORE  '' @ SEPARATOR @ ''  JUNC  '' @ SEPARATOR
                    @ ''  VRAM  '' @ SEPARATOR @ NL)"
  obtain r c4 v s2 where t: "table_rows w (device_count ?c3) 0 ?c3 0 ?s1 = (r, c4, v, s2)"
    by (cases "table_rows w (device_count ?c3) 0 ?c3 0 ?s1")
  have f: "initialized c4 = initialized ctx \<and> pacc c4 = pacc ctx
      \<and> device_count c4 = device_count ctx \<and> atexit_handlers s2 = atexit_handlers s"
    using table_rows_fields [of w "device_count ?c3" 0 ?c3 0 ?s1] t by simp
  show ?thesis
    using t f by (simp add: monitor_temperatures_table_def Let_def)
qed

lemma monitor_temperatures_json_fields:
  "initialized (fst (snd (monitor_temperatures_json w ctx s))) = initialized ctx
   \<and> pacc (fst (snd (monitor_temperatures_json w ctx s))) = pacc ctx
   \<and> device_count (fst (snd (monitor_temperatures_json w ctx s))) = device_count ctx
   \<and> atexit_handlers (snd (snd (monitor_temperatures_json w ctx s))) = atexit_handlers s"
proof -
  let ?s1 = "emit [Stdout (''{'' @ DQ @ ''timestamp'' @ DQ @ '':'' @ fmt_d (time_now w)
                              @ '','' @ DQ @ ''gpus'' @ DQ @ '':['')] s"
  obtain r c1 s2 where t: "json_rows w (device_count ctx) 0 ctx True ?s1 = (r, c1, s2)"
    by (cases "json_rows w (device_count ctx) 0 ctx True ?s1")
  have f: "initialized c1 = initialized ctx \<and> pacc c1 = pacc ctx
      \<and> device_count c1 = device_count ctx \<and> atexit_handlers s2 = atexit_handlers s"
    using json_rows_fields [of w "device_count ctx" 0 ctx True ?s1] t by simp
  show ?thesis
    using t f by (simp add: monitor_temperatures_json_def Let_def)
qed

section \<open>One-shot mode: properties\<close>

lemma init_monitoring_ok:
  assumes "euid w = 0" "pci_alloc_ok w" "nvmlInit w = 0"
    and "fst (nvmlDeviceGetCount w) = 0" "snd (nvmlDeviceGetCount w) \<noteq> 0"
  shows "init_monitoring w ctx s =
    (0, ctx\<lparr>pacc := True, result := 0, initialized := True,
             device_count := snd (nvmlDeviceGetCount w)\<rparr>,
     emit [Geteuid, Pci_alloc, Pci_init, Pci_scan_bus, Nvml_init, Nvml_count,
           Signal ''SIGINT'', Signal ''SIGTERM'', Signal ''SIGHUP''] s)"
  using assms
  by (simp add: init_monitoring_def check_root_privileges_def init_pci_def init_nvml_def
      get_device_count_def Let_def emit_emit)

lemma cleanup_context_live:
  assumes "initialized ctx" "pacc ctx"
  shows "snd (cleanup_context ctx s) = emit [Nvml_shutdown, Pci_cleanup] s"
  using assms by (simp add: cleanup_context_def emit_emit)

lemma main_started:
  assumes args: "set args \<subseteq> {''--json'', ''--once''}"
    and tty: "''--json'' \<in> set args \<or> (tcgetattr_ok w \<and> tcsetattr_ok w)"
    and init: "euid w = 0" "pci_alloc_ok w" "nvmlInit w = 0"
      "fst (nvmlDeviceGetCount w) = 0" "snd (nvmlDeviceGetCount w) \<noteq> 0"
    and fmt: "fmt = (if ''--json'' \<in> set args then FORMAT_JSON else FORMAT_TABLE)"
    and mode: "mode = (if ''--once'' \<in> set args then MODE_ONCE else MODE_CONTINUOUS)"
  shows "main w ws prog args =
    (case dispatch w ws (started_context w fmt mode) (started_state fmt) of
       None \<Rightarrow> None
     | Some (res, ctx3, s3) \<Rightarrow>
         Some (exit_main (if res = 0 then 0 else 1) (snd (cleanup_context ctx3 s3))))"
proof -
  let ?ctx = "initial_context\<lparr>output_mode := mode, output_format := fmt\<rparr>"
  have p: "parse_args prog args initial_context initial_state = Inr ?ctx"
    unfolding parse_args_flags [OF args] fmt mode by (simp add: initial_context_def)
  have f: "output_format ?ctx = fmt" by simp
  show ?thesis
  proof (cases "''--json'' \<in> set args")
    case True
    then have j: "fmt = FORMAT_JSON" using fmt by simp
    have t: "table_terminal w ?ctx initial_state = Inr initial_state"
      using j by (simp add: table_terminal_def)
    have s: "emit [Geteuid, Pci_alloc, Pci_init, Pci_scan_bus, Nvml_init, Nvml_count,
           Signal ''SIGINT'', Signal ''SIGTERM'', Signal ''SIGHUP''] initial_state
         = started_state fmt"
      using j by (simp add: started_state_def emit_def initial_state_def)
    have c: "?ctx\<lparr>pacc := True, result := 0, initialized := True,
             device_count := snd (nvmlDeviceGetCount w)\<rparr> = started_context w fmt mode"
      by (simp add: started_context_def)
    show ?thesis
      by (simp add: main_def p t init_monitoring_ok [OF init] s c)
  next
    case False
    then have j: "fmt = FORMAT_TABLE" using fmt by simp
    from False tty have ok: "tcgetattr_ok w" "tcsetattr_ok w" by simp_all
    let ?s1 = "atexit Restore_cursor (emit [Stdout CURSOR_HIDE, Fflush]
        (emit [Tcsetattr_raw] (atexit Reset_terminal (emit [Tcgetattr] initial_state))))"
    have t: "table_terminal w ?ctx initial_state = Inr ?s1"
      using j ok by (simp add: table_terminal_def setup_terminal_def Let_def)
    have s: "emit [Geteuid, Pci_alloc, Pci_init, Pci_scan_bus, Nvml_init, Nvml_count,
           Signal ''SIGINT'', Signal ''SIGTERM'', Signal ''SIGHUP''] ?s1
         = started_state fmt"
      using j by (simp add: started_state_def emit_def atexit_def initial_state_def)
    have c: "?ctx\<lparr>pacc := True, result := 0, initialized := True,
             device_count := snd (nvmlDeviceGetCount w)\<rparr> = started_context w fmt mode"
      by (simp add: started_context_def)
    show ?thesis
      by (simp add: main_def p t init_monitoring_ok [OF init] s c)
  qed
qed


text \<open>Claim C9. Let the arguments be \<open>--once\<close>, with or without \<open>--json\<close>, in any
  order and number; let the terminal set-up succeed where the table format needs it,
  and the initialisation succeed. If the one cycle run from the started context and
  state returns 0, leaving the state \<open>s'\<close>, then main returns 0 and its whole trace is
  that of \<open>s'\<close> (start-up, then that one cycle) followed by the tear-down; the worlds
  \<open>ws\<close> that a loop would run through play no part.\<close>

theorem once_runs_one_cycle:
  assumes args: "set args \<subseteq> {''--json'', ''--once''}"
    and once: "''--once'' \<in> set args"
    and tty: "''--json'' \<in> set args \<or> (tcgetattr_ok w \<and> tcsetattr_ok w)"
    and init: "euid w = 0 \<and> pci_alloc_ok w \<and> nvmlInit w = 0
      \<and> fst (nvmlDeviceGetCount w) = 0 \<and> snd (nvmlDeviceGetCount w) \<noteq> 0"
    and fmt: "fmt = (if ''--json'' \<in> set args then FORMAT_JSON else FORMAT_TABLE)"
    and cyc: "one_cycle w (started_context w fmt MODE_ONCE) (started_state fmt) = (0, ctx', s')"
  shows "main w ws prog args
    = Some (0, s'\<lparr>trace := trace s' @ teardown fmt\<rparr>)"
proof -
  let ?c = "started_context w fmt MODE_ONCE"
  let ?s = "started_state fmt"
  have of_c: "output_format ?c = fmt" "output_mode ?c = MODE_ONCE"
    "initialized ?c" "pacc ?c"
    by (simp_all add: started_context_def)
  have d: "dispatch w ws ?c ?s = Some (one_cycle w ?c ?s)"
    using of_c by (cases fmt) (simp_all add: dispatch_def one_cycle_def)
  have live: "initialized ctx'" "pacc ctx'" and h: "atexit_handlers s' = atexit_handlers ?s"
    using cyc of_c monitor_temperatures_json_fields [of w ?c ?s]
      monitor_temperatures_table_fields [of w ?c ?s]
    by (auto simp add: one_cycle_def split: if_splits)
  have m: "main w ws prog args
      = Some (exit_main 0 (snd (cleanup_context ctx' s')))"
    using init once
    by (simp add: main_started [OF args tty _ _ _ _ _ fmt refl] d cyc)
  have e: "exit_main 0 (emit [Nvml_shutdown, Pci_cleanup] s')
      = (0, s'\<lparr>trace := trace s' @ teardown fmt\<rparr>)"
    by (cases fmt)
      (simp_all add: exit_main_def h started_state_def teardown_def emit_def
        restore_cursor_def reset_terminal_def)
  show ?thesis
    unfolding m cleanup_context_live [OF live] e ..
qed

section \<open>The concrete machine: one cycle\<close>

lemma example_vram_reg_addr: "reg_addr example_gpu VRAM_REGISTER_OFFSET = 0xFB00E2A8"
  by (simp add: reg_addr_def example_gpu_def VRAM_REGISTER_OFFSET_def)

lemma example_vram_base_offset: "base_offset example_world 0xFB00E2A8 = 0xFB00E000"
  by (simp add: base_offset_def example_world_def)

lemma example_vram_read:
  "read_register_temp example_world example_gpu VRAM_REGISTER_OFFSET t s
     = (No_value, 30,
        emit [Open_mem, Mmap 4096 0xFB00E000, Peek 0x2A8, Munmap 4096, Close_mem] s)"
  by (simp add: read_register_temp_def example_vram_reg_addr example_vram_base_offset Let_def
      decode_register_def example_world_simps hotspot_ne_vram [symmetric])

lemma example_junction_read:
  "read_register_temp example_world example_gpu HOTSPOT_REGISTER_OFFSET t s
     = (No_value, 50,
        emit [Open_mem, Mmap 4096 0xFB020000, Peek 0x46C, Munmap 4096, Close_mem] s)"
  by (simp add: read_register_temp_def example_reg_addr example_base_offset Let_def
      decode_register_def example_world_simps)

lemma example_get_gpu_temps:
  "get_gpu_temps example_world ctx 0 zero_gpu s =
     (0, ctx\<lparr>result := 0\<rparr>,
      \<lparr>device = 0, pci_info = example_info, gpu_temp = 45, junction_temp = 50,
        vram_temp = 30\<rparr>,
      emit [Nvml_handle 0, Nvml_temperature 0, Nvml_pci_info 0,
            Open_mem, Mmap 4096 0xFB020000, Peek 0x46C, Munmap 4096, Close_mem,
            Open_mem, Mmap 4096 0xFB00E000, Peek 0x2A8, Munmap 4096, Close_mem] s)"
proof -
  have q: "fst (nvmlDeviceGetHandleByIndex example_world 0) = 0"
    "fst (nvmlDeviceGetTemperature example_world
            (snd (nvmlDeviceGetHandleByIndex example_world 0))) = 0"
    "fst (nvmlDeviceGetPciInfo example_world
            (snd (nvmlDeviceGetHandleByIndex example_world 0))) = 0"
    by (simp_all add: example_world_simps)
  have sc: "scan_devices example_world [example_bridge, example_gpu] g t
      = scan_devices example_world [example_gpu] g t" if "pci_info g = example_info" for g t
  proof -
    have f: "find (spec_match (pci_info g)) [example_bridge, example_gpu] = Some example_gpu"
      using that by (simp add: example_gpu_matches example_bridge_differs)
    have "scan_devices example_world [example_bridge, example_gpu] g t
        = (case find (spec_match (pci_info g)) [example_bridge, example_gpu] of
             None \<Rightarrow> (- 1, g, t)
           | Some m \<Rightarrow> scan_devices example_world [m] g t)"
      by (rule scan_devices_find)
    also have "\<dots> = scan_devices example_world [example_gpu] g t"
      unfolding f by simp
    finally show ?thesis .
  qed
  have ns: "\<not> skipped example_info example_gpu"
    by (simp add: skipped_iff example_gpu_matches)
  let ?g = "\<lparr>device = 0, pci_info = example_info, gpu_temp = 45, junction_temp = 0,
             vram_temp = 0\<rparr>"
  let ?t = "emit [Nvml_handle 0, Nvml_temperature 0, Nvml_pci_info 0] s"
  have g: "zero_gpu\<lparr>device := 0,
             gpu_temp := snd (nvmlDeviceGetTemperature example_world 0),
             pci_info := snd (nvmlDeviceGetPciInfo example_world 0)\<rparr> = ?g"
    by (simp add: zero_gpu_def example_world_simps)
  have h: "snd (nvmlDeviceGetHandleByIndex example_world 0) = 0"
    by (simp add: example_world_simps)
  have one: "scan_devices example_world [example_gpu] ?g ?t =
      (0, ?g\<lparr>junction_temp := 50, vram_temp := 30\<rparr>,
       emit [Nvml_handle 0, Nvml_temperature 0, Nvml_pci_info 0,
            Open_mem, Mmap 4096 0xFB020000, Peek 0x46C, Munmap 4096, Close_mem,
            Open_mem, Mmap 4096 0xFB00E000, Peek 0x2A8, Munmap 4096, Close_mem] s)"
    using ns
    by (simp add: example_junction_read example_vram_read call_value_def emit_emit
        example_world_simps)
  have all: "scan_devices example_world (devices example_world) ?g ?t
      = scan_devices example_world [example_gpu] ?g ?t"
    unfolding example_world_simps by (rule sc) simp
  show ?thesis
    unfolding get_gpu_temps_queries_ok [OF q] g h all one by simp
qed

lemma example_json_cycle:
  "device_count ctx = 1 \<Longrightarrow> monitor_temperatures_json example_world ctx s =
     (0, ctx\<lparr>result := 0\<rparr>,
      emit [Stdout (''{'' @ DQ @ ''timestamp'' @ DQ @ '':1700000000,'' @ DQ @ ''gpus'' @ DQ @ '':[''),
            Nvml_handle 0, Nvml_temperature 0, Nvml_pci_info 0,
            Open_mem, Mmap 4096 0xFB020000, Peek 0x46C, Munmap 4096, Close_mem,
            Open_mem, Mmap 4096 0xFB00E000, Peek 0x2A8, Munmap 4096, Close_mem,
            Stdout (''{'' @ DQ @ ''index'' @ DQ @ '':0,'' @ DQ @ ''core'' @ DQ @ '':45,''
                    @ DQ @ ''junction'' @ DQ @ '':50,'' @ DQ @ ''vram'' @ DQ @ '':30}''),
            Stdout ('']}'' @ NL), Fflush] s)"
  by (simp add: monitor_temperatures_json_def Let_def json_rows.simps [of _ "Suc 0" 0]
      json_rows.simps [of _ "Suc 0" "Suc 0"]
      example_get_gpu_temps emit_emit json_entry_def fmt_u_def fmt_d_def dec_nat.simps
      example_world_simps)

lemma read_register_temp_unreturned:
  "read_register_temp (w\<lparr>unreturned := u\<rparr>) d offset t s = read_register_temp w d offset t s"
  by (simp add: read_register_temp_def base_offset_def Let_def split: option.splits)

text \<open>Claim C4, at a successful read. On the example machine the junction read opens
  the accessor, maps the page, reads the word, unmaps and closes, and stores the decoded
  50; the call then ends at the closing brace of line 236 with no return statement, so
  it has no value: it does not return the 0 that the claim calls success. The caller
  tests whatever it finds in place of that value: where it finds 1, the loop of
  get_gpu_temps reports failure after this successful read and never reads the memory
  register.\<close>

theorem read_register_temp_reaches_closing_brace:
  "read_register_temp example_world example_gpu HOTSPOT_REGISTER_OFFSET 0 initial_state
     = (No_value, 50,
        \<lparr>trace = [Open_mem, Mmap 4096 0xFB020000, Peek 0x46C, Munmap 4096, Close_mem],
         refresh_counter = 0, atexit_handlers = []\<rparr>)
   \<and> fst (read_register_temp example_world example_gpu HOTSPOT_REGISTER_OFFSET 0
             initial_state) \<noteq> Returns 0
   \<and> scan_devices (example_world\<lparr>unreturned := (\<lambda>offset. 1)\<rparr>) [example_gpu]
        (zero_gpu\<lparr>pci_info := example_info\<rparr>) initial_state
     = (- 1, zero_gpu\<lparr>pci_info := example_info, junction_temp := 50\<rparr>,
        \<lparr>trace = [Open_mem, Mmap 4096 0xFB020000, Peek 0x46C, Munmap 4096, Close_mem],
         refresh_counter = 0, atexit_handlers = []\<rparr>)"
proof -
  have ns: "\<not> skipped (pci_info (zero_gpu\<lparr>pci_info := example_info\<rparr>)) example_gpu"
    by (simp add: skipped_iff example_gpu_matches)
  have r: "read_register_temp example_world example_gpu HOTSPOT_REGISTER_OFFSET 0 initial_state
     = (No_value, 50,
        \<lparr>trace = [Open_mem, Mmap 4096 0xFB020000, Peek 0x46C, Munmap 4096, Close_mem],
         refresh_counter = 0, atexit_handlers = []\<rparr>)"
    by (simp add: example_junction_read emit_def initial_state_def)
  have j: "junction_temp (zero_gpu\<lparr>pci_info := example_info\<rparr>) = 0"
    by (simp add: zero_gpu_def)
  have c: "scan_devices (example_world\<lparr>unreturned := (\<lambda>offset. 1)\<rparr>) [example_gpu]
        (zero_gpu\<lparr>pci_info := example_info\<rparr>) initial_state
     = (- 1, zero_gpu\<lparr>pci_info := example_info, junction_temp := 50\<rparr>,
        \<lparr>trace = [Open_mem, Mmap 4096 0xFB020000, Peek 0x46C, Munmap 4096, Close_mem],
         refresh_counter = 0, atexit_handlers = []\<rparr>)"
    using ns by (simp add: read_register_temp_unreturned j r call_value_def)
  show ?thesis
    using r c by simp
qed

lemma example_table_cycle_ok:
  assumes "device_count ctx = 1"
  shows "fst (monitor_temperatures_table example_world ctx s) = 0"
  using assms
  by (simp add: monitor_temperatures_table_def Let_def table_rows.simps [of _ "Suc 0" 0]
      table_rows.simps [of _ "Suc 0" "Suc 0"] example_get_gpu_temps)


text \<open>On the example machine both \<open>--json --once\<close> and \<open>--once\<close> exit 0, and the
  records run writes one object holding the readings 45, 50 and 30.\<close>

theorem once_runs_one_cycle_witness:
  "set [''--json'', ''--once''] \<subseteq> {''--json'', ''--once''}
   \<and> ''--once'' \<in> set [''--json'', ''--once'']
   \<and> euid example_world = 0 \<and> pci_alloc_ok example_world \<and> nvmlInit example_world = 0
   \<and> fst (nvmlDeviceGetCount example_world) = 0 \<and> snd (nvmlDeviceGetCount example_world) \<noteq> 0
   \<and> tcgetattr_ok example_world \<and> tcsetattr_ok example_world
   \<and> fst (one_cycle example_world (started_context example_world FORMAT_JSON MODE_ONCE)
             (started_state FORMAT_JSON)) = 0
   \<and> fst (one_cycle example_world (started_context example_world FORMAT_TABLE MODE_ONCE)
             (started_state FORMAT_TABLE)) = 0
   \<and> map_option fst (main example_world [] ''gputemps'' [''--json'', ''--once'']) = Some 0
   \<and> map_option fst (main example_world [] ''gputemps'' [''--once'']) = Some 0
   \<and> map_option (trace \<circ> snd) (main example_world [] ''gputemps'' [''--json'', ''--once''])
      = Some [Geteuid, Pci_alloc, Pci_init, Pci_scan_bus, Nvml_init, Nvml_count,
              Signal ''SIGINT'', Signal ''SIGTERM'', Signal ''SIGHUP'',
              Stdout (''{'' @ DQ @ ''timestamp'' @ DQ @ '':1700000000,'' @ DQ @ ''gpus'' @ DQ
                      @ '':[''),
              Nvml_handle 0, Nvml_temperature 0, Nvml_pci_info 0,
              Open_mem, Mmap 4096 0xFB020000, Peek 0x46C, Munmap 4096, Close_mem,
              Open_mem, Mmap 4096 0xFB00E000, Peek 0x2A8, Munmap 4096, Close_mem,
              Stdout (''{'' @ DQ @ ''index'' @ DQ @ '':0,'' @ DQ @ ''core'' @ DQ @ '':45,''
                      @ DQ @ ''junction'' @ DQ @ '':50,'' @ DQ @ ''vram'' @ DQ @ '':30}''),
              Stdout ('']}'' @ NL), Fflush, Nvml_shutdown, Pci_cleanup]"
proof -
  let ?cj = "started_context example_world FORMAT_JSON MODE_ONCE"
  let ?ct = "started_context example_world FORMAT_TABLE MODE_ONCE"
  have a1: "set [''--json'', ''--once''] \<subseteq> {''--json'', ''--once''}" by simp
  have a2: "set [''--once''] \<subseteq> {''--json'', ''--once''}" by simp
  have o1: "''--once'' \<in> set [''--json'', ''--once'']" by simp
  have o2: "''--once'' \<in> set [''--once'']" by simp
  have t1: "''--json'' \<in> set [''--json'', ''--once'']
      \<or> (tcgetattr_ok example_world \<and> tcsetattr_ok example_world)" by simp
  have t2: "''--json'' \<in> set [''--once'']
      \<or> (tcgetattr_ok example_world \<and> tcsetattr_ok example_world)"
    by (simp add: example_world_simps)
  have init: "euid example_world = 0 \<and> pci_alloc_ok example_world \<and> nvmlInit example_world = 0
      \<and> fst (nvmlDeviceGetCount example_world) = 0 \<and> snd (nvmlDeviceGetCount example_world) \<noteq> 0"
    by (simp add: example_world_simps)
  have f1: "FORMAT_JSON = (if ''--json'' \<in> set [''--json'', ''--once'']
                           then FORMAT_JSON else FORMAT_TABLE)" by simp
  have f2: "FORMAT_TABLE = (if ''--json'' \<in> set [''--once'']
                            then FORMAT_JSON else FORMAT_TABLE)" by simp
  have dj: "device_count ?cj = 1" and dt: "device_count ?ct = 1"
    by (simp_all add: started_context_def example_world_simps)
  have fj: "output_format ?cj = FORMAT_JSON" and ft: "output_format ?ct = FORMAT_TABLE"
    by (simp_all add: started_context_def)
  have cj: "one_cycle example_world ?cj (started_state FORMAT_JSON)
      = (0, ?cj\<lparr>result := 0\<rparr>,
         emit [Stdout (''{'' @ DQ @ ''timestamp'' @ DQ @ '':1700000000,'' @ DQ @ ''gpus'' @ DQ
                      @ '':[''),
            Nvml_handle 0, Nvml_temperature 0, Nvml_pci_info 0,
            Open_mem, Mmap 4096 0xFB020000, Peek 0x46C, Munmap 4096, Close_mem,
            Open_mem, Mmap 4096 0xFB00E000, Peek 0x2A8, Munmap 4096, Close_mem,
            Stdout (''{'' @ DQ @ ''index'' @ DQ @ '':0,'' @ DQ @ ''core'' @ DQ @ '':45,''
                    @ DQ @ ''junction'' @ DQ @ '':50,'' @ DQ @ ''vram'' @ DQ @ '':30}''),
            Stdout ('']}'' @ NL), Fflush] (started_state FORMAT_JSON))"
    unfolding one_cycle_def fj using example_json_cycle [OF dj] by simp
  have "fst (one_cycle example_world ?ct (started_state FORMAT_TABLE)) = 0"
    unfolding one_cycle_def ft using example_table_cycle_ok [OF dt] by simp
  then obtain c' s' where ct: "one_cycle example_world ?ct (started_state FORMAT_TABLE) = (0, c', s')"
    by (cases "one_cycle example_world ?ct (started_state FORMAT_TABLE)") simp
  note r1 = once_runs_one_cycle [OF a1 o1 t1 init f1 cj, of "[]" "''gputemps''"]
  note r2 = once_runs_one_cycle [OF a2 o2 t2 init f2 ct, of "[]" "''gputemps''"]
  show ?thesis
    using init cj ct unfolding r1 r2
    by (simp add: example_world_simps emit_def started_state_def teardown_def)
qed

section \<open>Waiting: properties\<close>

lemma delays_emit:
  "filter is_delay (trace (emit es s)) = filter is_delay (trace s) @ filter is_delay es"
  by (simp add: emit_def)

lemma read_register_temp_delays:
  "filter is_delay (trace (snd (snd (read_register_temp w d offset temp s))))
     = filter is_delay (trace s)"
  by (simp add: read_register_temp_def Let_def delays_emit split: option.splits)

lemma scan_devices_delays:
  "filter is_delay (trace (snd (snd (scan_devices w ds gpu s)))) = filter is_delay (trace s)"
proof (induction ds)
  case Nil
  show ?case by simp
next
  case (Cons d ds)
  show ?case
  proof (cases "skipped (pci_info gpu) d")
    case True
    with Cons show ?thesis by simp
  next
    case False
    obtain r1 t1 s1 where h: "read_register_temp w d HOTSPOT_REGISTER_OFFSET (junction_temp gpu) s
        = (r1, t1, s1)"
      by (cases "read_register_temp w d HOTSPOT_REGISTER_OFFSET (junction_temp gpu) s")
    obtain r2 t2 s2 where v: "read_register_temp w d VRAM_REGISTER_OFFSET (vram_temp gpu) s1
        = (r2, t2, s2)"
      by (cases "read_register_temp w d VRAM_REGISTER_OFFSET (vram_temp gpu) s1")
    have a1: "filter is_delay (trace s1) = filter is_delay (trace s)"
      using read_register_temp_delays [of w d HOTSPOT_REGISTER_OFFSET "junction_temp gpu" s] h
      by simp
    have a2: "filter is_delay (trace s2) = filter is_delay (trace s1)"
      using read_register_temp_delays [of w d VRAM_REGISTER_OFFSET "vram_temp gpu" s1] v
      by simp
    show ?thesis
      using False h v a1 a2 by simp
  qed
qed

lemma scan_devices_delays_eq:
  assumes "scan_devices w ds gpu s = (r, gpu', s')"
  shows "filter is_delay (trace s') = filter is_delay (trace s)"
  using scan_devices_delays [of w ds gpu s] assms by simp

lemma get_gpu_temps_delays:
  "filter is_delay (trace (snd (snd (snd (get_gpu_temps w ctx i gpu s)))))
     = filter is_delay (trace s)"
  by (auto simp add: get_gpu_temps_def get_device_handle_def get_gpu_temp_def
      get_device_pci_info_def Let_def delays_emit split: prod.splits
      dest!: scan_devices_delays_eq)

lemma table_rows_delays:
  "filter is_delay (trace (snd (snd (snd (table_rows w n i ctx v s)))))
     = filter is_delay (trace s)"
proof (induction w n i ctx v s rule: table_rows.induct)
  case (1 w n i ctx v s)
  show ?case
  proof (cases "i < n")
    case False
    then show ?thesis by (simp add: table_rows.simps)
  next
    case True
    obtain r ctx1 gpu s1 where g: "get_gpu_temps w ctx i zero_gpu s = (r, ctx1, gpu, s1)"
      by (cases "get_gpu_temps w ctx i zero_gpu s")
    have f: "filter is_delay (trace s1) = filter is_delay (trace s)"
      using get_gpu_temps_delays [of w ctx i zero_gpu s] g by simp
    show ?thesis
    proof (cases "r = 0")
      case False
      with True g f show ?thesis
        by (simp add: table_rows.simps [of w n i])
    next
      case r0: True
      have ih: "filter is_delay (trace (snd (snd (snd (table_rows w n (Suc i)
                    (print_gpu_info ctx1 i gpu) (to_int (v + 1)) s1)))))
                  = filter is_delay (trace s1)"
        using "1.IH" [OF True g [symmetric] _ ] r0 by simp
      have "table_rows w n i ctx v s
          = table_rows w n (Suc i) (print_gpu_info ctx1 i gpu) (to_int (v + 1)) s1"
        using True g r0 by (simp add: table_rows.simps [of w n i])
      with ih f show ?thesis by simp
    qed
  qed
qed

lemma json_rows_delays:
  "filter is_delay (trace (snd (snd (json_rows w n i ctx first s))))
     = filter is_delay (trace s)"
proof (induction w n i ctx first s rule: json_rows.induct)
  case (1 w n i ctx first s)
  show ?case
  proof (cases "i < n")
    case False
    then show ?thesis by (simp add: json_rows.simps)
  next
    case True
    obtain r ctx1 gpu s1 where g: "get_gpu_temps w ctx i zero_gpu s = (r, ctx1, gpu, s1)"
      by (cases "get_gpu_temps w ctx i zero_gpu s")
    have f: "filter is_delay (trace s1) = filter is_delay (trace s)"
      using get_gpu_temps_delays [of w ctx i zero_gpu s] g by simp
    show ?thesis
    proof (cases "r = 0")
      case False
      with True g f show ?thesis
        by (simp add: json_rows.simps [of w n i])
    next
      case r0: True
      let ?s2 = "emit ((if \<not> first then [Stdout '',''] else []) @ [Stdout (json_entry i gpu)]) s1"
      have ih: "filter is_delay (trace (snd (snd (json_rows w n (Suc i) ctx1 False ?s2))))
                  = filter is_delay (trace ?s2)"
        using "1.IH" [OF True g [symmetric] _ ] r0 by simp
      have e: "filter is_delay (trace ?s2) = filter is_delay (trace s1)"
        by (simp add: delays_emit)
      have "json_rows w n i ctx first s = json_rows w n (Suc i) ctx1 False ?s2"
        using True g r0 by (simp add: json_rows.simps [of w n i])
      with ih e f show ?thesis by simp
    qed
  qed
qed

lemma monitor_temperatures_table_delays:
  "filter is_delay (trace (snd (snd (monitor_temperatures_table w ctx s))))
     = filter is_delay (trace s)"
proof -
  let ?s1 = "s\<lparr>refresh_counter := (if refresh_counter s = 0 then 1 else 0)\<rparr>"
  let ?c3 = "buffer_append
     (buffer_append (ctx\<lparr>buffer_pos := 0\<rparr>)
        (NL @ (if refresh_counter ?s1 = 0 then ''* '' else ''  '')))
     (SEPARATOR @ ''  CORE  '' @ SEPARATOR @ ''  JUNC  '' @ SEPARATOR
                    @ ''  VRAM  '' @ SEPARATOR @ NL)"
  obtain r c4 v s2 where t: "table_rows w (device_count ?c3) 0 ?c3 0 ?s1 = (r, c4, v, s2)"
    by (cases "table_rows w (device_count ?c3) 0 ?c3 0 ?s1")
  have f: "filter is_delay (trace s2) = filter is_delay (trace s)"
    using table_rows_delays [of w "device_count ?c3" 0 ?c3 0 ?s1] t by simp
  show ?thesis
    using t f by (simp add: monitor_temperatures_table_def Let_def delays_emit)
qed

lemma monitor_temperatures_json_delays:
  "filter is_delay (trace (snd (snd (monitor_temperatures_json w ctx s))))
     = filter is_delay (trace s)"
proof -
  let ?s1 = "emit [Stdout (''{'' @ DQ @ ''timestamp'' @ DQ @ '':'' @ fmt_d (time_now w)
                              @ '','' @ DQ @ ''gpus'' @ DQ @ '':['')] s"
  obtain r c1 s2 where t: "json_rows w (device_count ctx) 0 ctx True ?s1 = (r, c1, s2)"
    by (cases "json_rows w (device_count ctx) 0 ctx True ?s1")
  have f: "filter is_delay (trace s2) = filter is_delay (trace s)"
    using json_rows_delays [of w "device_count ctx" 0 ctx True ?s1] t
    by (simp add: delays_emit)
  show ?thesis
    using t f by (simp add: monitor_temperatures_json_def Let_def delays_emit)
qed

lemma handle_input_cases:
  "handle_input w ms s =
     (if stdin_ready w \<and> stdin_read w then 1 else 0,
      emit (Select 0 (ms * 1000) # (if stdin_ready w then [Read_stdin] else [])) s)"
  by (simp add: handle_input_def Let_def emit_emit)


text \<open>Claim C6, amended. REFRESH_DURATION is one second, and a cycle of either
  format contains no wait. In continuous mode each loop follows a successful cycle with
  the same console wait, a select on standard input with a timeout of 0 s and
  1000000 us; a key read during it leaves the loop at once. When no key is read, the
  table loop goes straight to its next iteration, so its delay between cycles is that
  wait alone, while the records loop first sleeps REFRESH_DURATION, so its delay
  between cycles is the wait followed by a sleep of one second.\<close>

theorem loops_wait_between_cycles:
  "REFRESH_DURATION * 1000 * 1000 = 1000000
   \<and> filter is_delay (trace (snd (snd (monitor_temperatures_table w ctx s))))
       = filter is_delay (trace s)
   \<and> filter is_delay (trace (snd (snd (monitor_temperatures_json w ctx s))))
       = filter is_delay (trace s)
   \<and> (running w \<and> monitor_temperatures_table w ctx s = (0, ctx1, s1) \<longrightarrow>
        run_monitoring_loop (w # ws) ctx s =
          (if stdin_ready w \<and> stdin_read w
           then Some (leave_monitoring_loop ctx1 (emit [Select 0 1000000, Read_stdin] s1))
           else run_monitoring_loop ws ctx1
                  (emit (Select 0 1000000 # (if stdin_ready w then [Read_stdin] else [])) s1)))
   \<and> (running w \<and> monitor_temperatures_json w ctx s = (0, ctx1, s1) \<longrightarrow>
        run_json_loop (w # ws) ctx s =
          (if stdin_ready w \<and> stdin_read w
           then Some (0, ctx1, emit [Select 0 1000000, Read_stdin] s1)
           else run_json_loop ws ctx1
                  (emit (Select 0 1000000 # (if stdin_ready w then [Read_stdin] else [])
                         @ [Sleep 1]) s1)))"
proof -
  have d: "REFRESH_DURATION * 1000 * 1000 = 1000000"
    by (simp add: REFRESH_DURATION_def)
  have t: "run_monitoring_loop (w # ws) ctx s =
          (if stdin_ready w \<and> stdin_read w
           then Some (leave_monitoring_loop ctx1 (emit [Select 0 1000000, Read_stdin] s1))
           else run_monitoring_loop ws ctx1
                  (emit (Select 0 1000000 # (if stdin_ready w then [Read_stdin] else [])) s1))"
    if "running w" and "monitor_temperatures_table w ctx s = (0, ctx1, s1)"
    using that by (simp add: handle_input_cases REFRESH_DURATION_def)
  have j: "run_json_loop (w # ws) ctx s =
          (if stdin_ready w \<and> stdin_read w
           then Some (0, ctx1, emit [Select 0 1000000, Read_stdin] s1)
           else run_json_loop ws ctx1
                  (emit (Select 0 1000000 # (if stdin_ready w then [Read_stdin] else [])
                         @ [Sleep 1]) s1))"
    if "running w" and "monitor_temperatures_json w ctx s = (0, ctx1, s1)"
    using that by (simp add: handle_input_cases REFRESH_DURATION_def emit_emit)
  show ?thesis
    using d t j monitor_temperatures_table_delays [of w ctx s]
      monitor_temperatures_json_delays [of w ctx s]
    by blast
qed

section \<open>The second machine: a failure in the middle of a cycle\<close>

lemma second_fails_simps:
  "euid example_world_second_fails = 0"
  "pci_alloc_ok example_world_second_fails"
  "devices example_world_second_fails = [example_bridge, example_gpu]"
  "nvmlInit example_world_second_fails = 0"
  "nvmlDeviceGetCount example_world_second_fails = (0, 2)"
  "nvmlDeviceGetHandleByIndex example_world_second_fails 0 = (0, 0)"
  "nvmlDeviceGetHandleByIndex example_world_second_fails (Suc 0) = (15, 0)"
  "nvmlDeviceGetTemperature example_world_second_fails h = (0, 45)"
  "nvmlDeviceGetPciInfo example_world_second_fails h = (0, example_info)"
  "nvmlErrorString example_world_second_fails r = ''Unknown Error''"
  "time_now example_world_second_fails = 1700000000"
  "tcgetattr_ok example_world_second_fails"
  "tcsetattr_ok example_world_second_fails"
  "running example_world_second_fails"
  by (simp_all add: example_world_second_fails_def example_world_def)

lemma read_register_temp_second_fails:
  "read_register_temp example_world_second_fails d offset t s
     = read_register_temp example_world d offset t s"
proof -
  have "open_mem example_world_second_fails = open_mem example_world"
    "PG_SZ example_world_second_fails = PG_SZ example_world"
    "mmap_mem example_world_second_fails = mmap_mem example_world"
    "mem_word example_world_second_fails = mem_word example_world"
    by (simp_all add: example_world_second_fails_def)
  then show ?thesis
    by (simp add: read_register_temp_def base_offset_def Let_def split: option.splits)
qed

lemma call_value_second_fails:
  "call_value example_world_second_fails offset r = call_value example_world offset r"
  by (cases r) (simp_all add: call_value_def example_world_second_fails_def)

lemma scan_devices_second_fails:
  "scan_devices example_world_second_fails ds g s = scan_devices example_world ds g s"
proof (induction ds)
  case Nil
  show ?case by simp
next
  case (Cons d ds)
  then show ?case
    by (simp add: read_register_temp_second_fails call_value_second_fails
        split: prod.splits)
qed

lemma example_scan_devices:
  assumes "pci_info g = example_info"
  shows "scan_devices example_world [example_bridge, example_gpu] g t =
      (0, g\<lparr>junction_temp := 50, vram_temp := 30\<rparr>,
       emit [Open_mem, Mmap 4096 0xFB020000, Peek 0x46C, Munmap 4096, Close_mem,
             Open_mem, Mmap 4096 0xFB00E000, Peek 0x2A8, Munmap 4096, Close_mem] t)"
proof -
  have f: "find (spec_match (pci_info g)) [example_bridge, example_gpu] = Some example_gpu"
    using assms by (simp add: example_gpu_matches example_bridge_differs)
  have ns: "\<not> skipped (pci_info g) example_gpu"
    using assms by (simp add: skipped_iff example_gpu_matches)
  have "scan_devices example_world [example_bridge, example_gpu] g t
      = (case find (spec_match (pci_info g)) [example_bridge, example_gpu] of
           None \<Rightarrow> (- 1, g, t)
         | Some m \<Rightarrow> scan_devices example_world [m] g t)"
    by (rule scan_devices_find)
  also have "\<dots> = scan_devices example_world [example_gpu] g t"
    unfolding f by simp
  also have "\<dots> = (0, g\<lparr>junction_temp := 50, vram_temp := 30\<rparr>,
       emit [Open_mem, Mmap 4096 0xFB020000, Peek 0x46C, Munmap 4096, Close_mem,
             Open_mem, Mmap 4096 0xFB00E000, Peek 0x2A8, Munmap 4096, Close_mem] t)"
    using ns
    by (simp add: example_junction_read example_vram_read call_value_def emit_emit
        example_world_simps)
  finally show ?thesis .
qed

lemma second_fails_first_gpu:
  "get_gpu_temps example_world_second_fails ctx 0 zero_gpu s =
     (0, ctx\<lparr>result := 0\<rparr>,
      \<lparr>device = 0, pci_info = example_info, gpu_temp = 45, junction_temp = 50,
        vram_temp = 30\<rparr>,
      emit [Nvml_handle 0, Nvml_temperature 0, Nvml_pci_info 0,
            Open_mem, Mmap 4096 0xFB020000, Peek 0x46C, Munmap 4096, Close_mem,
            Open_mem, Mmap 4096 0xFB00E000, Peek 0x2A8, Munmap 4096, Close_mem] s)"
proof -
  have q: "fst (nvmlDeviceGetHandleByIndex example_world_second_fails 0) = 0"
    "fst (nvmlDeviceGetTemperature example_world_second_fails
            (snd (nvmlDeviceGetHandleByIndex example_world_second_fails 0))) = 0"
    "fst (nvmlDeviceGetPciInfo example_world_second_fails
            (snd (nvmlDeviceGetHandleByIndex example_world_second_fails 0))) = 0"
    by (simp_all add: second_fails_simps)
  let ?g = "\<lparr>device = 0, pci_info = example_info, gpu_temp = 45, junction_temp = 0,
             vram_temp = 0\<rparr>"
  let ?t = "emit [Nvml_handle 0, Nvml_temperature 0, Nvml_pci_info 0] s"
  have sc: "scan_devices example_world [example_bridge, example_gpu] ?g ?t =
      (0, ?g\<lparr>junction_temp := 50, vram_temp := 30\<rparr>,
       emit [Open_mem, Mmap 4096 0xFB020000, Peek 0x46C, Munmap 4096, Close_mem,
             Open_mem, Mmap 4096 0xFB00E000, Peek 0x2A8, Munmap 4096, Close_mem] ?t)"
    by (rule example_scan_devices) simp
  have step: "get_gpu_temps example_world_second_fails ctx 0 zero_gpu s =
      (case scan_devices example_world [example_bridge, example_gpu] ?g ?t of
         (r, gpu', s') \<Rightarrow> (r, ctx\<lparr>result := 0\<rparr>, gpu', s'))"
    unfolding get_gpu_temps_queries_ok [OF q]
    by (simp add: second_fails_simps scan_devices_second_fails zero_gpu_def
        del: scan_devices.simps split: prod.splits)
  show ?thesis
    unfolding step sc by (simp add: emit_emit)
qed

lemma second_fails_second_gpu:
  "get_gpu_temps example_world_second_fails ctx (Suc 0) zero_gpu s =
     (- 1, ctx\<lparr>result := 15\<rparr>, zero_gpu,
      emit [Nvml_handle 1,
            Stderr (''Failed to get handle for GPU 1: Unknown Error'' @ NL)] s)"
  by (simp add: get_gpu_temps_def get_device_handle_def Let_def second_fails_simps
      fmt_u_def dec_nat.simps zero_gpu_def)

lemma second_fails_json_cycle:
  assumes "device_count ctx = 2"
  shows "monitor_temperatures_json example_world_second_fails ctx s =
     (- 1, ctx\<lparr>result := 15\<rparr>,
      emit [Stdout (''{'' @ DQ @ ''timestamp'' @ DQ @ '':1700000000,'' @ DQ @ ''gpus'' @ DQ @ '':[''),
            Nvml_handle 0, Nvml_temperature 0, Nvml_pci_info 0,
            Open_mem, Mmap 4096 0xFB020000, Peek 0x46C, Munmap 4096, Close_mem,
            Open_mem, Mmap 4096 0xFB00E000, Peek 0x2A8, Munmap 4096, Close_mem,
            Stdout (''{'' @ DQ @ ''index'' @ DQ @ '':0,'' @ DQ @ ''core'' @ DQ @ '':45,''
                    @ DQ @ ''junction'' @ DQ @ '':50,'' @ DQ @ ''vram'' @ DQ @ '':30}''),
            Nvml_handle 1,
            Stderr (''Failed to get handle for GPU 1: Unknown Error'' @ NL)] s)"
  using assms
  by (simp add: monitor_temperatures_json_def Let_def json_rows.simps [of _ 2 0]
      json_rows.simps [of _ 2 "Suc 0"]
      second_fails_first_gpu second_fails_second_gpu emit_emit json_entry_def fmt_u_def
      fmt_d_def dec_nat.simps second_fails_simps)

lemma second_fails_table_cycle:
  assumes "device_count ctx = 2"
  shows "fst (monitor_temperatures_table example_world_second_fails ctx s) = - 1
    \<and> trace (snd (snd (monitor_temperatures_table example_world_second_fails ctx s))) =
       trace s @ [Nvml_handle 0, Nvml_temperature 0, Nvml_pci_info 0,
            Open_mem, Mmap 4096 0xFB020000, Peek 0x46C, Munmap 4096, Close_mem,
            Open_mem, Mmap 4096 0xFB00E000, Peek 0x2A8, Munmap 4096, Close_mem,
            Nvml_handle 1,
            Stderr (''Failed to get handle for GPU 1: Unknown Error'' @ NL)]"
  using assms
  by (simp add: monitor_temperatures_table_def Let_def table_rows.simps [of _ 2 0]
      table_rows.simps [of _ 2 "Suc 0"]
      second_fails_first_gpu second_fails_second_gpu emit_emit trace_emit)

lemma second_fails_started:
  assumes "set args \<subseteq> {''--json'', ''--once''}"
  shows "main example_world_second_fails ws prog args =
    (case dispatch example_world_second_fails ws
            (started_context example_world_second_fails
               (if ''--json'' \<in> set args then FORMAT_JSON else FORMAT_TABLE)
               (if ''--once'' \<in> set args then MODE_ONCE else MODE_CONTINUOUS))
            (started_state (if ''--json'' \<in> set args then FORMAT_JSON else FORMAT_TABLE)) of
       None \<Rightarrow> None
     | Some (res, ctx3, s3) \<Rightarrow>
         Some (exit_main (if res = 0 then 0 else 1) (snd (cleanup_context ctx3 s3))))"
  by (rule main_started [OF assms]) (simp_all add: second_fails_simps)

lemma second_fails_count:
  "device_count (started_context example_world_second_fails fmt mode) = 2"
  by (simp add: started_context_def second_fails_simps)


text \<open>Claim C3, where the code departs from it. Two GPUs are reported and the handle
  lookup for the second fails. In records mode, continuous or one-shot, the process
  exits 1 and no later device is sampled, but standard output has already received the
  opening of the cycle's object and the complete entry of device 0, left unterminated:
  something is rendered for the failed cycle. In table mode the same failure writes
  nothing of the cycle: standard output holds only the cursor-hide and cursor-show
  sequences.\<close>

theorem json_failure_leaves_partial_record:
  "map_option (\<lambda>(status, s). (status, stdout_text s))
     (main example_world_second_fails [example_world_second_fails] ''gputemps'' [''--json''])
   = Some (1, ''{'' @ DQ @ ''timestamp'' @ DQ @ '':1700000000,'' @ DQ @ ''gpus'' @ DQ @ '':[''
              @ ''{'' @ DQ @ ''index'' @ DQ @ '':0,'' @ DQ @ ''core'' @ DQ @ '':45,''
              @ DQ @ ''junction'' @ DQ @ '':50,'' @ DQ @ ''vram'' @ DQ @ '':30}'')
   \<and> map_option (\<lambda>(status, s). (status, stdout_text s))
     (main example_world_second_fails [] ''gputemps'' [''--json'', ''--once''])
   = Some (1, ''{'' @ DQ @ ''timestamp'' @ DQ @ '':1700000000,'' @ DQ @ ''gpus'' @ DQ @ '':[''
              @ ''{'' @ DQ @ ''index'' @ DQ @ '':0,'' @ DQ @ ''core'' @ DQ @ '':45,''
              @ DQ @ ''junction'' @ DQ @ '':50,'' @ DQ @ ''vram'' @ DQ @ '':30}'')
   \<and> map_option (\<lambda>(status, s). (status, stdout_text s))
     (main example_world_second_fails [example_world_second_fails] ''gputemps'' [])
   = Some (1, CURSOR_HIDE @ CURSOR_SHOW)"
proof -
  have a1: "set [''--json''] \<subseteq> {''--json'', ''--once''}" by simp
  have a2: "set [''--json'', ''--once''] \<subseteq> {''--json'', ''--once''}" by simp
  have a3: "set ([] :: string list) \<subseteq> {''--json'', ''--once''}" by simp
  have live: "initialized (started_context w fmt mode)" "pacc (started_context w fmt mode)"
    for w fmt mode
    by (simp_all add: started_context_def)
  have fm: "output_format (started_context w fmt mode) = fmt"
    "output_mode (started_context w fmt mode) = mode" for w fmt mode
    by (simp_all add: started_context_def)
  have r1: "main example_world_second_fails [example_world_second_fails] ''gputemps''
      [''--json''] = Some (1, emit [Nvml_shutdown, Pci_cleanup]
        (snd (snd (monitor_temperatures_json example_world_second_fails
           (started_context example_world_second_fails FORMAT_JSON MODE_CONTINUOUS)
           (started_state FORMAT_JSON)))))"
    unfolding second_fails_started [OF a1]
    by (simp add: dispatch_def fm second_fails_simps
        second_fails_json_cycle [OF second_fails_count] cleanup_context_def live
        exit_main_def started_state_def emit_def)
  have r2: "main example_world_second_fails [] ''gputemps''
      [''--json'', ''--once''] = Some (1, emit [Nvml_shutdown, Pci_cleanup]
        (snd (snd (monitor_temperatures_json example_world_second_fails
           (started_context example_world_second_fails FORMAT_JSON MODE_ONCE)
           (started_state FORMAT_JSON)))))"
    unfolding second_fails_started [OF a2]
    by (simp add: dispatch_def fm second_fails_simps
        second_fails_json_cycle [OF second_fails_count] cleanup_context_def live
        exit_main_def started_state_def emit_def)
  obtain r c s where t: "monitor_temperatures_table example_world_second_fails
           (started_context example_world_second_fails FORMAT_TABLE MODE_CONTINUOUS)
           (started_state FORMAT_TABLE) = (r, c, s)"
    by (cases "monitor_temperatures_table example_world_second_fails
           (started_context example_world_second_fails FORMAT_TABLE MODE_CONTINUOUS)
           (started_state FORMAT_TABLE)")
  have tf: "r = - 1" "trace s = trace (started_state FORMAT_TABLE) @
       [Nvml_handle 0, Nvml_temperature 0, Nvml_pci_info 0,
            Open_mem, Mmap 4096 0xFB020000, Peek 0x46C, Munmap 4096, Close_mem,
            Open_mem, Mmap 4096 0xFB00E000, Peek 0x2A8, Munmap 4096, Close_mem,
            Nvml_handle 1,
            Stderr (''Failed to get handle for GPU 1: Unknown Error'' @ NL)]"
    "initialized c" "pacc c" "atexit_handlers s = [Restore_cursor, Reset_terminal]"
    using second_fails_table_cycle [OF second_fails_count, of FORMAT_TABLE MODE_CONTINUOUS
        "started_state FORMAT_TABLE"]
      monitor_temperatures_table_fields [of example_world_second_fails
        "started_context example_world_second_fails FORMAT_TABLE MODE_CONTINUOUS"
        "started_state FORMAT_TABLE"] t live
    by (simp_all add: started_state_def)
  have m3: "main example_world_second_fails [example_world_second_fails] ''gputemps'' []
      = Some (exit_main 1 (emit [Nvml_shutdown, Pci_cleanup] s))"
    unfolding second_fails_started [OF a3]
    using tf(1,3,4)
    by (simp add: dispatch_def fm second_fails_simps t cleanup_context_def emit_emit)
  have r3: "map_option (\<lambda>(status, s). (status, stdout_text s))
     (main example_world_second_fails [example_world_second_fails] ''gputemps'' [])
       = Some (1, CURSOR_HIDE @ CURSOR_SHOW)"
    unfolding m3
    using tf(2,5)
    by (simp add: exit_main_def started_state_def emit_def stdout_text_def
        restore_cursor_def reset_terminal_def)
  show ?thesis
    unfolding r1 r2 r3
    by (simp add: second_fails_json_cycle [OF second_fails_count] stdout_text_def emit_def
        started_state_def)
qed

section \<open>Waiting: the concrete machine\<close>

lemma started_state_delays: "filter is_delay (trace (started_state fmt)) = []"
  by (simp add: started_state_def)


text \<open>Claim C6 as stated fails for the records loop: one cycle on the example machine
  with no key pressed, then the flag cleared, and the waits of the run are the console
  wait and a sleep of one second, not the console wait alone.\<close>

theorem json_loop_sleeps_counterexample:
  "map_option (\<lambda>(r, c, s). filter is_delay (trace s))
     (run_json_loop [example_world, example_world\<lparr>running := False\<rparr>]
        (started_context example_world FORMAT_JSON MODE_CONTINUOUS)
        (started_state FORMAT_JSON))
   = Some [Select 0 1000000, Sleep 1]"
proof -
  let ?c = "started_context example_world FORMAT_JSON MODE_CONTINUOUS"
  let ?s = "started_state FORMAT_JSON"
  have dc: "device_count ?c = 1"
    by (simp add: started_context_def example_world_simps)
  obtain r c s where m: "monitor_temperatures_json example_world ?c ?s = (r, c, s)"
    by (cases "monitor_temperatures_json example_world ?c ?s")
  have r0: "r = 0"
    using example_json_cycle [OF dc, of ?s] m by simp
  have d: "filter is_delay (trace s) = []"
    using monitor_temperatures_json_delays [of example_world ?c ?s] m
    by (simp add: started_state_delays)
  have "run_json_loop [example_world, example_world\<lparr>running := False\<rparr>] ?c ?s
      = Some (0, c, emit [Sleep REFRESH_DURATION]
                      (emit [Select 0 (REFRESH_DURATION * 1000 * 1000)] s))"
    using m r0 by (simp add: handle_input_cases example_world_simps emit_emit)
  then show ?thesis
    using d by (simp add: delays_emit REFRESH_DURATION_def)
qed


text \<open>The same run in both formats: the table loop waits once, the records loop waits
  and sleeps.\<close>

theorem loops_wait_between_cycles_witness:
  "running example_world
   \<and> fst (monitor_temperatures_table example_world
            (started_context example_world FORMAT_TABLE MODE_CONTINUOUS)
            (started_state FORMAT_TABLE)) = 0
   \<and> fst (monitor_temperatures_json example_world
            (started_context example_world FORMAT_JSON MODE_CONTINUOUS)
            (started_state FORMAT_JSON)) = 0
   \<and> map_option (\<lambda>(r, c, s). filter is_delay (trace s))
       (run_monitoring_loop [example_world, example_world\<lparr>running := False\<rparr>]
          (started_context example_world FORMAT_TABLE MODE_CONTINUOUS)
          (started_state FORMAT_TABLE))
     = Some [Select 0 1000000]
   \<and> map_option (\<lambda>(r, c, s). filter is_delay (trace s))
       (run_json_loop [example_world, example_world\<lparr>running := False\<rparr>]
          (started_context example_world FORMAT_JSON MODE_CONTINUOUS)
          (started_state FORMAT_JSON))
     = Some [Select 0 1000000, Sleep 1]"
proof -
  let ?ct = "started_context example_world FORMAT_TABLE MODE_CONTINUOUS"
  let ?st = "started_state FORMAT_TABLE"
  let ?cj = "started_context example_world FORMAT_JSON MODE_CONTINUOUS"
  let ?sj = "started_state FORMAT_JSON"
  let ?ws = "[example_world\<lparr>running := False\<rparr>]"
  have run: "running example_world"
    by (simp add: example_world_simps)
  have dt: "device_count ?ct = 1" and dj: "device_count ?cj = 1"
    by (simp_all add: started_context_def example_world_simps)
  have ft: "fst (monitor_temperatures_table example_world ?ct ?st) = 0"
    by (rule example_table_cycle_ok [OF dt])
  then obtain ct1 st1 where mt: "monitor_temperatures_table example_world ?ct ?st = (0, ct1, st1)"
    by (cases "monitor_temperatures_table example_world ?ct ?st") simp
  have fj: "fst (monitor_temperatures_json example_world ?cj ?sj) = 0"
    using example_json_cycle [OF dj, of ?sj] by simp
  then obtain cj1 sj1 where mj: "monitor_temperatures_json example_world ?cj ?sj = (0, cj1, sj1)"
    by (cases "monitor_temperatures_json example_world ?cj ?sj") simp
  note th = loops_wait_between_cycles [of example_world ?ct ?st ct1 st1 ?ws]
  note tj = loops_wait_between_cycles [of example_world ?cj ?sj cj1 sj1 ?ws]
  have dst: "filter is_delay (trace st1) = []"
    using th mt by (simp add: started_state_delays)
  have dsj: "filter is_delay (trace sj1) = []"
    using tj mj by (simp add: started_state_delays)
  have lt: "run_monitoring_loop (example_world # ?ws) ?ct ?st
      = run_monitoring_loop ?ws ct1 (emit [Select 0 1000000] st1)"
    using th run mt by (simp add: example_world_simps)
  have lj: "run_json_loop (example_world # ?ws) ?cj ?sj
      = run_json_loop ?ws cj1 (emit [Select 0 1000000, Sleep 1] sj1)"
    using tj run mj by (simp add: example_world_simps)
  show ?thesis
    unfolding lt lj using run ft fj dst dsj
    by (simp add: leave_monitoring_loop_def delays_emit)
qed

end
